theory Spec2Isabelle
  imports
    Complex_Main
    "HOL-Library.Char_ord"
    "HOL-Library.List_Lexorder"
    "HOL-Library.Multiset"
    "HOL-Library.Option_ord"
    "HOL-Library.Sublist"
begin

section \<open>The content query layer of the fashion dashboard\<close>

text \<open>
  The dashboard serves one SQLite table, \<open>content\<close>, through \<open>lib/database.js\<close>
  (\<open>getAllContent\<close>, \<open>searchContent\<close>, \<open>getContentStats\<close>, \<open>getCategories\<close>,
  \<open>getSources\<close>) and two Next.js routes, \<open>GET /api/data\<close> and \<open>GET /api/stats\<close>.
  The JavaScript builds SQL text and hands it to SQLite, so the embedding has three
  layers: the JavaScript values the code tests and converts, the meaning of the SQL it
  writes, and the functions themselves.

  Modelling decisions, fixed here once:
  \<^item> A \<open>string\<close> is a sequence of characters; a \<open>char\<close> stands for one character
    (code points below 256).
  \<^item> A JavaScript number with an integral value is an \<open>int\<close>, next to \<open>NaN\<close> and the
    two infinities. \<open>parseInt\<close> rounds what it reads to the nearest double; SQLite takes
    a bound number as \<open>LIMIT\<close> or \<open>OFFSET\<close> only inside its 64-bit range, and its
    \<open>SUM\<close> of integers fails when the running sum leaves that range.
  \<^item> An INTEGER column holds an \<open>int\<close>, a DECIMAL column a rational. \<open>AVG\<close> and the
    rounding of \<open>avgTimeSpent\<close> are computed exactly; the code computes them in double
    arithmetic, which can round the other way next to a tie. Statements about
    \<open>avgTimeSpent\<close> carry the conditions under which the two agree.
  \<^item> A column that the schema does not declare \<open>NOT NULL\<close> holds an \<open>option\<close>;
    \<open>None\<close> is SQL's NULL.
  \<^item> \<open>ORDER BY\<close> leaves the order of rows with equal keys to the query plan, and
    SQLite returns them as its scan meets them. The model keeps them in table order.
    The statements below are about the order of the keys, about which rows are
    returned and how many, or compare two answers to the same SQL; pagination is
    stated relative to the unpaginated answer.
  \<^item> SQLite refuses a \<open>LIKE\<close> pattern of more than 50000 bytes. The model has no such
    failure; the statement about the search clause is for shorter search strings.
\<close>

subsection \<open>JavaScript values\<close>

text \<open>
  The result of \<open>parseInt\<close>: \<open>NaN\<close>, a double with an integral value, or an infinity.
  A value that may be \<open>undefined\<close> or \<open>null\<close> is an \<open>option\<close>.
\<close>

datatype jsnum = NaN | Num int | Infinity | Minus_Infinity

text \<open>
  Truthiness, as \<open>if (x)\<close> and \<open>x || y\<close> test it: a string is truthy unless empty, a number
  unless \<open>0\<close> or \<open>NaN\<close>, \<open>undefined\<close> and \<open>null\<close> never. Both functions return the
  truthy value itself, so that a branch taken on it can use it.
\<close>

fun truthy_string :: "string option \<Rightarrow> string option" where
  "truthy_string None = None"
| "truthy_string (Some s) = (if s = [] then None else Some s)"

fun truthy_number :: "jsnum option \<Rightarrow> jsnum option" where
  "truthy_number None = None"
| "truthy_number (Some NaN) = None"
| "truthy_number (Some (Num n)) = (if n = 0 then None else Some (Num n))"
| "truthy_number (Some Infinity) = Some Infinity"
| "truthy_number (Some Minus_Infinity) = Some Minus_Infinity"

text \<open>\<open>v || d\<close> for a string or \<open>null\<close> on the left.\<close>

definition or_else :: "string option \<Rightarrow> string \<Rightarrow> string" where
  "or_else v d = (case truthy_string v of Some s \<Rightarrow> s | None \<Rightarrow> d)"

text \<open>
  White space as \<open>String.prototype.trim\<close> and \<open>parseInt\<close> skip it: tab, line feed,
  vertical tab, form feed, carriage return, space and no-break space.
\<close>

definition is_white_space :: "char \<Rightarrow> bool" where
  "is_white_space c =
     (c \<in> set [CHR 0x09, CHR 0x0A, CHR 0x0B, CHR 0x0C, CHR 0x0D, CHR 0x20, CHR 0xA0])"

definition trim :: "string \<Rightarrow> string" where
  "trim s = rev (dropWhile is_white_space (rev (dropWhile is_white_space s)))"

text \<open>
  The double nearest to an integer, a tie going to the even mantissa: integers below
  \<open>2\<^sup>5\<^sup>3\<close> in absolute value are doubles themselves, a larger one keeps its 53
  leading binary digits. From \<open>2\<^sup>1\<^sup>0\<^sup>2\<^sup>4\<close> on the number is an infinity.
\<close>

function bit_length :: "int \<Rightarrow> nat" where
  "bit_length m = (if m \<le> 0 then 0 else Suc (bit_length (m div 2)))"
  by pat_completeness auto
termination
  by (relation "measure nat") auto

definition round_to_double :: "int \<Rightarrow> int" where
  "round_to_double i =
     (let m = \<bar>i\<bar>
      in if m < 2 ^ 53 then i
         else let e = bit_length m - 53;
                  q = m div 2 ^ e;
                  r = m mod 2 ^ e;
                  q' = (if 2 ^ e < 2 * r \<or> (2 * r = 2 ^ e \<and> odd q) then q + 1 else q)
              in sgn i * (q' * 2 ^ e))"

definition to_number :: "int \<Rightarrow> jsnum" where
  "to_number i =
     (let d = round_to_double i
      in if 2 ^ 1024 \<le> d then Infinity
         else if d \<le> - (2 ^ 1024) then Minus_Infinity
         else Num d)"

text \<open>
  \<open>parseInt(string)\<close> with no radix: skip leading white space, read a sign, switch to
  radix 16 after \<open>0x\<close> or \<open>0X\<close>, read the longest run of digits of the radix, and
  return \<open>NaN\<close> when that run is empty, else the number the digits denote, as a
  double. Whatever follows the digits is ignored.
\<close>

definition digit_value :: "char \<Rightarrow> nat option" where
  "digit_value c =
     map_of (zip ''0123456789abcdef'' [0 ..< 16] @ zip ''ABCDEF'' [10 ..< 16]) c"

definition is_digit :: "nat \<Rightarrow> char \<Rightarrow> bool" where
  "is_digit radix c = (case digit_value c of Some d \<Rightarrow> d < radix | None \<Rightarrow> False)"

definition digits_value :: "nat \<Rightarrow> string \<Rightarrow> int" where
  "digits_value radix z =
     foldl (\<lambda>acc c. acc * int radix + int (case digit_value c of Some d \<Rightarrow> d | None \<Rightarrow> 0)) 0 z"

fun strip_sign :: "string \<Rightarrow> int \<times> string" where
  "strip_sign [] = (1, [])"
| "strip_sign (c # cs) =
     (if c = CHR ''-'' then (- 1, cs) else if c = CHR ''+'' then (1, cs) else (1, c # cs))"

fun strip_prefix :: "string \<Rightarrow> nat \<times> string" where
  "strip_prefix (a # b # cs) =
     (if a = CHR ''0'' \<and> (b = CHR ''x'' \<or> b = CHR ''X'') then (16, cs) else (10, a # b # cs))"
| "strip_prefix s = (10, s)"

definition parseInt :: "string \<Rightarrow> jsnum" where
  "parseInt str =
     (let (sign, s) = strip_sign (dropWhile is_white_space str);
          (radix, s') = strip_prefix s;
          z = takeWhile (is_digit radix) s'
      in if z = [] then NaN else to_number (sign * digits_value radix z))"

text \<open>\<open>Math.round\<close> rounds to the nearest integer, a half towards positive infinity.\<close>

definition Math_round :: "rat \<Rightarrow> int" where
  "Math_round x = \<lfloor>x + 1 / 2\<rfloor>"

subsection \<open>The content table\<close>

text \<open>
  One row of \<open>content\<close>, with the columns of the \<open>CREATE TABLE\<close> statement.
  \<open>category\<close>, \<open>url\<close> and \<open>source\<close> are \<open>NOT NULL\<close>.
\<close>

record content =
  id' :: int
  category :: string
  url :: string
  source :: string
  time_spent_minutes :: "rat option"
  upvotes :: "int option"
  views :: "int option"
  engagement_score :: "rat option"
  content_type :: "string option"
  difficulty_level :: "string option"
  trending_score :: "rat option"
  created_at :: "string option"
  updated_at :: "string option"

text \<open>
  What \<open>new Database(DB_PATH)\<close> finds: no database that can be opened, a database
  without the table (the setup script has not run), or the table with its rows in
  rowid order.
\<close>

datatype database = Unavailable | Missing_table | Content "content list"

subsection \<open>The SQL the code writes\<close>

text \<open>
  SQL's three-valued logic: \<open>None\<close> is NULL. A \<open>WHERE\<close> clause keeps the rows on which
  it is true.
\<close>

type_synonym sql_bool = "bool option"

definition sql_or :: "sql_bool \<Rightarrow> sql_bool \<Rightarrow> sql_bool" where
  "sql_or a b =
     (if a = Some True \<or> b = Some True then Some True
      else if a = None \<or> b = None then None
      else Some False)"

definition sql_and :: "sql_bool \<Rightarrow> sql_bool \<Rightarrow> sql_bool" where
  "sql_and a b =
     (if a = Some False \<or> b = Some False then Some False
      else if a = None \<or> b = None then None
      else Some True)"

text \<open>
  SQLite's \<open>LIKE\<close>, pattern first: \<open>%\<close> matches any run of characters, \<open>_\<close> exactly
  one, every other character itself, ignoring the case of the ASCII letters only.
  SQLite reads the pattern and the text as C strings: each ends at its first NUL.
\<close>

definition to_lower :: "char \<Rightarrow> char" where
  "to_lower c =
     (case map_of (zip ''ABCDEFGHIJKLMNOPQRSTUVWXYZ'' ''abcdefghijklmnopqrstuvwxyz'') c of
        Some l \<Rightarrow> l
      | None \<Rightarrow> c)"

fun like :: "string \<Rightarrow> string \<Rightarrow> bool" where
  "like [] s = (s = [])"
| "like (p # ps) [] = (p = CHR ''%'' \<and> like ps [])"
| "like (p # ps) (c # cs) =
     (if p = CHR ''%'' then like ps (c # cs) \<or> like (p # ps) cs
      else (p = CHR ''_'' \<or> to_lower p = to_lower c) \<and> like ps cs)"

definition c_string :: "string \<Rightarrow> string" where
  "c_string s = takeWhile (\<lambda>c. c \<noteq> CHR 0x00) s"

definition sql_like :: "string \<Rightarrow> string \<Rightarrow> bool" where
  "sql_like pat s = like (c_string pat) (c_string s)"

text \<open>
  The four text columns the queries compare, and the expressions of their \<open>WHERE\<close>
  clauses. Each comparison carries the parameter bound to its \<open>?\<close>: the code pushes the
  parameter in the same step that writes the placeholder.
\<close>

datatype text_column = Col_category | Col_source | Col_content_type | Col_difficulty_level

fun column_value :: "text_column \<Rightarrow> content \<Rightarrow> string option" where
  "column_value Col_category r = Some (category r)"
| "column_value Col_source r = Some (source r)"
| "column_value Col_content_type r = content_type r"
| "column_value Col_difficulty_level r = difficulty_level r"

datatype expr =
    Equals text_column string
  | Like text_column string
  | Or expr expr
  | And expr expr

fun eval :: "expr \<Rightarrow> content \<Rightarrow> sql_bool" where
  "eval (Equals col v) r = map_option (\<lambda>s. s = v) (column_value col r)"
| "eval (Like col pat) r = map_option (sql_like pat) (column_value col r)"
| "eval (Or a b) r = sql_or (eval a r) (eval b r)"
| "eval (And a b) r = sql_and (eval a r) (eval b r)"

text \<open>\<open>conditions.join(' AND ')\<close> and \<open>sql += ' AND ...'\<close>: a conjunction, left to right.\<close>

fun and_all :: "expr \<Rightarrow> expr list \<Rightarrow> expr" where
  "and_all e [] = e"
| "and_all e (c # cs) = and_all (And e c) cs"

text \<open>
  \<open>ORDER BY engagement_score DESC, trending_score DESC\<close>. SQLite sorts NULL below
  every number, which is the order of \<open>option\<close> (\<open>None\<close> least). \<open>precedes a b\<close>: row
  \<open>a\<close> may stand before row \<open>b\<close>. The sort is an insertion sort; rows with equal
  keys, whose order SQLite leaves to its plan, stay in table order.
\<close>

definition precedes :: "content \<Rightarrow> content \<Rightarrow> bool" where
  "precedes a b =
     (engagement_score b < engagement_score a \<or>
      (engagement_score a = engagement_score b \<and> trending_score b \<le> trending_score a))"

fun insert_row :: "content \<Rightarrow> content list \<Rightarrow> content list" where
  "insert_row r [] = [r]"
| "insert_row r (x # xs) = (if precedes r x then r # x # xs else x # insert_row r xs)"

definition order_by_scores :: "content list \<Rightarrow> content list" where
  "order_by_scores rows = foldr insert_row rows []"

text \<open>
  \<open>LIMIT n\<close> and \<open>LIMIT n OFFSET k\<close>: skip \<open>k\<close> rows, then return at most \<open>n\<close>. A
  negative \<open>n\<close> is no bound and a negative \<open>k\<close> is \<open>0\<close> (SQLite's rule).
\<close>

definition sql_limit :: "int \<Rightarrow> int option \<Rightarrow> 'a list \<Rightarrow> 'a list" where
  "sql_limit n k rows =
     (let rest = (case k of None \<Rightarrow> rows | Some k' \<Rightarrow> drop (nat k') rows)
      in if n < 0 then rest else take (nat n) rest)"

text \<open>
  A number bound to the \<open>?\<close> of \<open>LIMIT\<close> or \<open>OFFSET\<close> reaches SQLite as a double and
  must convert to a 64-bit integer without loss, strictly between \<open>-2\<^sup>6\<^sup>3\<close> and
  \<open>2\<^sup>6\<^sup>3\<close>; otherwise the statement fails with a datatype mismatch, whatever the
  table holds.
\<close>

datatype sqlite_error = No_such_table | Datatype_mismatch | Integer_overflow

fun sqlite_integer :: "jsnum \<Rightarrow> int option" where
  "sqlite_integer (Num n) = (if - (2 ^ 63) < n \<and> n < 2 ^ 63 then Some n else None)"
| "sqlite_integer NaN = None"
| "sqlite_integer Infinity = None"
| "sqlite_integer Minus_Infinity = None"

definition bind_limit ::
    "(jsnum \<times> jsnum option) option \<Rightarrow> sqlite_error + (int \<times> int option) option" where
  "bind_limit l =
     (case l of
        None \<Rightarrow> Inr None
      | Some (n, k) \<Rightarrow>
          (case sqlite_integer n of
             None \<Rightarrow> Inl Datatype_mismatch
           | Some n' \<Rightarrow>
               (case k of
                  None \<Rightarrow> Inr (Some (n', None))
                | Some k' \<Rightarrow>
                    (case sqlite_integer k' of
                       None \<Rightarrow> Inl Datatype_mismatch
                     | Some k'' \<Rightarrow> Inr (Some (n', Some k''))))))"

text \<open>
  A \<open>SELECT\<close> of all thirteen columns from \<open>content\<close> with an optional \<open>WHERE\<close>, the
  \<open>ORDER BY\<close> above and an optional \<open>LIMIT\<close>, the \<open>OFFSET\<close> inside it, each with the
  number bound to it. \<open>prepare\<close> throws when the table is missing, \<open>all\<close> when a bound
  number is no 64-bit integer.
\<close>

record select_stmt =
  where_clause :: "expr option"
  limit_clause :: "(jsnum \<times> jsnum option) option"

definition keeps :: "expr option \<Rightarrow> content \<Rightarrow> bool" where
  "keeps w r = (case w of None \<Rightarrow> True | Some e \<Rightarrow> eval e r = Some True)"

definition paginate :: "(int \<times> int option) option \<Rightarrow> 'a list \<Rightarrow> 'a list" where
  "paginate l rows = (case l of None \<Rightarrow> rows | Some (n, k) \<Rightarrow> sql_limit n k rows)"

fun prepare_all :: "database \<Rightarrow> select_stmt \<Rightarrow> sqlite_error + content list" where
  "prepare_all (Content rows) stmt =
     (case bind_limit (limit_clause stmt) of
        Inl e \<Rightarrow> Inl e
      | Inr l \<Rightarrow>
          Inr (paginate l (order_by_scores (filter (keeps (where_clause stmt)) rows))))"
| "prepare_all _ stmt = Inl No_such_table"

text \<open>
  The aggregates of \<open>getContentStats\<close>. \<open>AVG\<close> and \<open>SUM\<close> step over the rows, skip NULL,
  and are NULL when no value was counted; \<open>COUNT( * )\<close> counts rows. \<open>SUM\<close> adds 64-bit
  integers: once a running sum leaves their range the statement fails with an integer
  overflow.
\<close>

definition int64 :: "int \<Rightarrow> bool" where
  "int64 i = (- (2 ^ 63) \<le> i \<and> i < 2 ^ 63)"

fun avg_step :: "rat \<times> nat \<Rightarrow> rat option \<Rightarrow> rat \<times> nat" where
  "avg_step (s, n) None = (s, n)"
| "avg_step (s, n) (Some v) = (s + v, Suc n)"

definition sql_avg :: "rat option list \<Rightarrow> rat option" where
  "sql_avg vs = (case foldl avg_step (0, 0) vs of (s, n) \<Rightarrow> if n = 0 then None else Some (s / of_nat n))"

fun sum_step :: "sqlite_error + int \<times> nat \<Rightarrow> int option \<Rightarrow> sqlite_error + int \<times> nat" where
  "sum_step (Inl e) v = Inl e"
| "sum_step (Inr (s, n)) None = Inr (s, n)"
| "sum_step (Inr (s, n)) (Some v) =
     (if int64 (s + v) then Inr (s + v, Suc n) else Inl Integer_overflow)"

definition sql_sum :: "int option list \<Rightarrow> sqlite_error + int option" where
  "sql_sum vs =
     (case foldl sum_step (Inr (0, 0)) vs of
        Inl e \<Rightarrow> Inl e
      | Inr (s, n) \<Rightarrow> Inr (if n = 0 then None else Some s))"

text \<open>\<open>SELECT DISTINCT c FROM content ORDER BY c\<close> on a \<open>NOT NULL\<close> text column.\<close>

definition select_distinct :: "(content \<Rightarrow> string) \<Rightarrow> content list \<Rightarrow> string list" where
  "select_distinct col rows = sort (remdups (map col rows))"

fun table_of :: "database \<Rightarrow> sqlite_error + content list" where
  "table_of (Content rows) = Inr rows"
| "table_of _ = Inl No_such_table"

subsection \<open>\<open>lib/database.js\<close>\<close>

text \<open>The errors the module throws, named by their messages.\<close>

datatype error =
    Database_connection_failed
  | Failed_to_fetch_content_data
  | Failed_to_search_content
  | Failed_to_fetch_content_statistics
  | Failed_to_fetch_categories
  | Failed_to_fetch_sources

text \<open>
  \<open>getDatabase\<close> opens the connection or throws. The connection it caches is read
  only, so a second call sees what the first saw; the model passes the database.
\<close>

definition getDatabase :: "database \<Rightarrow> error + database" where
  "getDatabase db = (if db = Unavailable then Inl Database_connection_failed else Inr db)"

text \<open>The \<open>filters\<close> object; \<open>None\<close> is a property that is \<open>undefined\<close>.\<close>

record filters =
  category_filter :: "string option"
  source_filter :: "string option"
  contentType :: "string option"
  difficultyLevel :: "string option"
  limit :: "jsnum option"
  offset :: "jsnum option"

text \<open>
  \<open>if (filters.category && filters.category !== 'All')\<close> and
  \<open>if (filters.contentType)\<close>, each pushing one condition.
\<close>

definition unless_All :: "text_column \<Rightarrow> string option \<Rightarrow> expr list" where
  "unless_All col v =
     (case truthy_string v of
        Some s \<Rightarrow> if s \<noteq> ''All'' then [Equals col s] else []
      | None \<Rightarrow> [])"

definition if_truthy :: "text_column \<Rightarrow> string option \<Rightarrow> expr list" where
  "if_truthy col v = (case truthy_string v of Some s \<Rightarrow> [Equals col s] | None \<Rightarrow> [])"

definition conditions_of :: "filters \<Rightarrow> expr list" where
  "conditions_of f =
     unless_All Col_category (category_filter f) @
     unless_All Col_source (source_filter f) @
     if_truthy Col_content_type (contentType f) @
     if_truthy Col_difficulty_level (difficultyLevel f)"

text \<open>\<open>if (conditions.length > 0) sql += ' WHERE ' + conditions.join(' AND ')\<close>.\<close>

definition where_of :: "expr list \<Rightarrow> expr option" where
  "where_of conditions = (case conditions of [] \<Rightarrow> None | c # cs \<Rightarrow> Some (and_all c cs))"

text \<open>
  \<open>if (filters.limit) { ... LIMIT ? ...; if (filters.offset) { ... OFFSET ? ... } }\<close>:
  the offset is read only inside the branch of a truthy limit.
\<close>

definition pagination_of :: "filters \<Rightarrow> (jsnum \<times> jsnum option) option" where
  "pagination_of f =
     (case truthy_number (limit f) of
        Some n \<Rightarrow> Some (n, truthy_number (offset f))
      | None \<Rightarrow> None)"

definition getAllContent :: "database \<Rightarrow> filters \<Rightarrow> error + content list" where
  "getAllContent database f =
     (case getDatabase database of
        Inl e \<Rightarrow> Inl e
      | Inr db \<Rightarrow>
          (case prepare_all db
                  \<lparr>where_clause = where_of (conditions_of f), limit_clause = pagination_of f\<rparr> of
             Inl _ \<Rightarrow> Inl Failed_to_fetch_content_data
           | Inr rows \<Rightarrow> Inr rows))"

text \<open>
  \<open>searchContent\<close>: the four \<open>LIKE\<close> comparisons share the pattern \<open>%query%\<close>; of the
  filters only \<open>category\<close> and \<open>source\<close> are read, and there is no \<open>LIMIT\<close>.
\<close>

definition search_clause :: "string \<Rightarrow> expr" where
  "search_clause query =
     (let pat = ''%'' @ query @ ''%''
      in Or (Or (Or (Like Col_category pat) (Like Col_source pat)) (Like Col_content_type pat))
            (Like Col_difficulty_level pat))"

definition search_conditions_of :: "filters \<Rightarrow> expr list" where
  "search_conditions_of f =
     unless_All Col_category (category_filter f) @ unless_All Col_source (source_filter f)"

definition searchContent :: "database \<Rightarrow> string \<Rightarrow> filters \<Rightarrow> error + content list" where
  "searchContent database query f =
     (case getDatabase database of
        Inl e \<Rightarrow> Inl e
      | Inr db \<Rightarrow>
          (case prepare_all db
                  \<lparr>where_clause = Some (and_all (search_clause query) (search_conditions_of f)),
                   limit_clause = None\<rparr> of
             Inl _ \<Rightarrow> Inl Failed_to_search_content
           | Inr rows \<Rightarrow> Inr rows))"

text \<open>
  \<open>getContentStats\<close>: \<open>totalUpvotes\<close> and \<open>totalViews\<close> are the \<open>SUM\<close>s as SQLite
  returns them, \<open>null\<close> for NULL and a 64-bit integer as the nearest double;
  \<open>avgTimeSpent\<close> is \<open>Math.round(avg * 100) / 100\<close>, where \<open>null * 100\<close> is \<open>0\<close>. A
  statement that fails throws inside the \<open>try\<close>.
\<close>

record content_stats =
  totalContent :: nat
  avgTimeSpent :: rat
  totalUpvotes :: "int option"
  totalViews :: "int option"

definition times_100 :: "rat option \<Rightarrow> rat" where
  "times_100 v = (case v of None \<Rightarrow> 0 | Some a \<Rightarrow> a * 100)"

definition getContentStats :: "database \<Rightarrow> error + content_stats" where
  "getContentStats database =
     (case getDatabase database of
        Inl e \<Rightarrow> Inl e
      | Inr db \<Rightarrow>
          (case table_of db of
             Inl _ \<Rightarrow> Inl Failed_to_fetch_content_statistics
           | Inr rows \<Rightarrow>
               let count = length rows;
                   avg = sql_avg (map time_spent_minutes rows)
               in case sql_sum (map upvotes rows) of
                    Inl _ \<Rightarrow> Inl Failed_to_fetch_content_statistics
                  | Inr total_upvotes \<Rightarrow>
                      (case sql_sum (map views rows) of
                         Inl _ \<Rightarrow> Inl Failed_to_fetch_content_statistics
                       | Inr total_views \<Rightarrow>
                           Inr \<lparr>totalContent = count,
                                avgTimeSpent = of_int (Math_round (times_100 avg)) / 100,
                                totalUpvotes = map_option round_to_double total_upvotes,
                                totalViews = map_option round_to_double total_views\<rparr>)))"

definition getCategories :: "database \<Rightarrow> error + string list" where
  "getCategories database =
     (case getDatabase database of
        Inl e \<Rightarrow> Inl e
      | Inr db \<Rightarrow>
          (case table_of db of
             Inl _ \<Rightarrow> Inl Failed_to_fetch_categories
           | Inr rows \<Rightarrow> Inr (select_distinct category rows)))"

definition getSources :: "database \<Rightarrow> error + string list" where
  "getSources database =
     (case getDatabase database of
        Inl e \<Rightarrow> Inl e
      | Inr db \<Rightarrow>
          (case table_of db of
             Inl _ \<Rightarrow> Inl Failed_to_fetch_sources
           | Inr rows \<Rightarrow> Inr (select_distinct source rows)))"

subsection \<open>The routes\<close>

text \<open>
  A route answers with JSON and status 200, or with \<open>{error: message}\<close> and status 500:
  its \<open>catch\<close> turns every exception into the latter. There is no other answer.
\<close>

datatype 'a response = Json_200 'a | Json_500 string

text \<open>The query string, as \<open>searchParams.get\<close> reads it; \<open>None\<close> is \<open>null\<close>.\<close>

record search_params =
  search_param :: "string option"
  category_param :: "string option"
  source_param :: "string option"
  contentType_param :: "string option"
  difficultyLevel_param :: "string option"
  limit_param :: "string option"
  offset_param :: "string option"

text \<open>The object the data route builds from each row.\<close>

record api_item =
  Category :: string
  URL :: string
  Source :: string
  Time_Spent_Minutes :: "rat option"
  Upvotes :: "int option"
  Views :: "int option"
  Engagement_Score :: "rat option"
  Content_Type :: "string option"
  Difficulty_Level :: "string option"
  Trending_Score :: "rat option"
  item_id :: int
  item_created_at :: "string option"
  item_updated_at :: "string option"

definition transform :: "content \<Rightarrow> api_item" where
  "transform item =
     \<lparr>Category = category item,
      URL = url item,
      Source = source item,
      Time_Spent_Minutes = time_spent_minutes item,
      Upvotes = upvotes item,
      Views = views item,
      Engagement_Score = engagement_score item,
      Content_Type = content_type item,
      Difficulty_Level = difficulty_level item,
      Trending_Score = trending_score item,
      item_id = id' item,
      item_created_at = created_at item,
      item_updated_at = updated_at item\<rparr>"

text \<open>
  \<open>searchParams.get('limit') ? parseInt(searchParams.get('limit')) : undefined\<close>.
\<close>

definition parse_optional :: "string option \<Rightarrow> jsnum option" where
  "parse_optional v = map_option parseInt (truthy_string v)"

text \<open>
  The \<open>filters\<close> object of the data route. \<open>category\<close> and \<open>source\<close> default to
  \<open>'All'\<close>; \<open>contentType\<close> and \<open>difficultyLevel\<close> default to the empty string and
  are then passed as \<open>contentType || undefined\<close>.
\<close>

definition prepare_filters :: "search_params \<Rightarrow> filters" where
  "prepare_filters searchParams =
     \<lparr>category_filter = Some (or_else (category_param searchParams) ''All''),
      source_filter = Some (or_else (source_param searchParams) ''All''),
      contentType = truthy_string (Some (or_else (contentType_param searchParams) [])),
      difficultyLevel = truthy_string (Some (or_else (difficultyLevel_param searchParams) [])),
      limit = parse_optional (limit_param searchParams),
      offset = parse_optional (offset_param searchParams)\<rparr>"

text \<open>
  \<open>if (search.trim()) data = searchContent(search, filters) else data =
  getAllContent(filters)\<close>; the search text is passed on untrimmed.
\<close>

definition GET_data :: "database \<Rightarrow> search_params \<Rightarrow> api_item list response" where
  "GET_data database searchParams =
     (let search = or_else (search_param searchParams) [];
          f = prepare_filters searchParams;
          data = (if trim search \<noteq> [] then searchContent database search f
                  else getAllContent database f)
      in case data of
           Inl _ \<Rightarrow> Json_500 ''Failed to load data from database''
         | Inr rows \<Rightarrow> Json_200 (map transform rows))"

record stats_body =
  stats :: content_stats
  categories :: "string list"
  sources :: "string list"

definition GET_stats :: "database \<Rightarrow> stats_body response" where
  "GET_stats database =
     (case getContentStats database of
        Inl _ \<Rightarrow> Json_500 ''Failed to load statistics''
      | Inr s \<Rightarrow>
          (case getCategories database of
             Inl _ \<Rightarrow> Json_500 ''Failed to load statistics''
           | Inr cs \<Rightarrow>
               (case getSources database of
                  Inl _ \<Rightarrow> Json_500 ''Failed to load statistics''
                | Inr ss \<Rightarrow> Json_200 \<lparr>stats = s, categories = cs, sources = ss\<rparr>)))"

subsection \<open>The specification's notions\<close>

text \<open>
  The result order the specification asks for, on the objects the data route returns:
  \<open>Engagement_Score\<close> descending, ties broken by \<open>Trending_Score\<close> descending.
\<close>

definition scores_descending :: "api_item list \<Rightarrow> bool" where
  "scores_descending items =
     sorted_wrt
       (\<lambda>a b. Engagement_Score b < Engagement_Score a \<or>
              (Engagement_Score a = Engagement_Score b \<and> Trending_Score b \<le> Trending_Score a))
       items"

text \<open>
  The search predicate in the specification's words: the search string occurs, ignoring
  case, as a substring of at least one of the four fields. A NULL field has no substring.
  Ignoring case is comparing after \<open>fold_case\<close>, which maps every capital letter among
  the characters, \<open>A\<close> to \<open>Z\<close> and the accented capitals from \<open>0xC0\<close> to \<open>0xDE\<close>, to its
  small letter.
\<close>

definition fold_case :: "char \<Rightarrow> char" where
  "fold_case c =
     (let n = (of_char c :: nat)
      in if (0x41 \<le> n \<and> n \<le> 0x5A) \<or> (0xC0 \<le> n \<and> n \<le> 0xDE \<and> n \<noteq> 0xD7)
         then char_of (n + 0x20)
         else c)"

definition occurs_in :: "string \<Rightarrow> string option \<Rightarrow> bool" where
  "occurs_in q field =
     (case field of None \<Rightarrow> False | Some s \<Rightarrow> sublist (map fold_case q) (map fold_case s))"

definition search_predicate :: "string \<Rightarrow> content \<Rightarrow> bool" where
  "search_predicate q r =
     (occurs_in q (Some (category r)) \<or> occurs_in q (Some (source r)) \<or>
      occurs_in q (content_type r) \<or> occurs_in q (difficulty_level r))"

text \<open>The same predicate, ignoring the case of the ASCII letters only.\<close>

definition occurs_in_ascii :: "string \<Rightarrow> string option \<Rightarrow> bool" where
  "occurs_in_ascii q field =
     (case field of None \<Rightarrow> False | Some s \<Rightarrow> sublist (map to_lower q) (map to_lower s))"

definition search_predicate_ascii :: "string \<Rightarrow> content \<Rightarrow> bool" where
  "search_predicate_ascii q r =
     (occurs_in_ascii q (Some (category r)) \<or> occurs_in_ascii q (Some (source r)) \<or>
      occurs_in_ascii q (content_type r) \<or> occurs_in_ascii q (difficulty_level r))"

text \<open>A text without NUL, and a record whose four searched fields are without NUL.\<close>

definition nul_free :: "string option \<Rightarrow> bool" where
  "nul_free field = (case field of None \<Rightarrow> True | Some s \<Rightarrow> CHR 0x00 \<notin> set s)"

definition fields_nul_free :: "content \<Rightarrow> bool" where
  "fields_nul_free r =
     (nul_free (Some (category r)) \<and> nul_free (Some (source r)) \<and>
      nul_free (content_type r) \<and> nul_free (difficulty_level r))"

text \<open>
  The equality filters in the specification's words: every filter that is supplied
  holds of the record, and \<open>All\<close> is no filter. In the code an absent or empty value is
  no filter either, and \<open>All\<close> is no filter for category and source. First for a
  \<open>filters\<close> object, then for the parameters of a request.
\<close>

definition filter_holds :: "bool \<Rightarrow> string option \<Rightarrow> string option \<Rightarrow> bool" where
  "filter_holds all_is_none v field =
     (case v of
        None \<Rightarrow> True
      | Some s \<Rightarrow> s = [] \<or> (all_is_none \<and> s = ''All'') \<or> field = Some s)"

definition matches_filters :: "filters \<Rightarrow> content \<Rightarrow> bool" where
  "matches_filters f r =
     (filter_holds True (category_filter f) (Some (category r)) \<and>
      filter_holds True (source_filter f) (Some (source r)) \<and>
      filter_holds False (contentType f) (content_type r) \<and>
      filter_holds False (difficultyLevel f) (difficulty_level r))"

definition matches_request :: "search_params \<Rightarrow> content \<Rightarrow> bool" where
  "matches_request p r =
     (filter_holds True (category_param p) (Some (category r)) \<and>
      filter_holds True (source_param p) (Some (source r)) \<and>
      filter_holds False (contentType_param p) (content_type r) \<and>
      filter_holds False (difficultyLevel_param p) (difficulty_level r))"

text \<open>
  The values of a column that are not NULL, their mean, and rounding to two decimals.
  \<open>near_tie x\<close>: \<open>x\<close> is less than a thousandth away from the middle between two
  integers, where rounding to the nearest integer turns.
\<close>

fun non_null :: "'a option list \<Rightarrow> 'a list" where
  "non_null [] = []"
| "non_null (None # vs) = non_null vs"
| "non_null (Some v # vs) = v # non_null vs"

definition mean :: "rat list \<Rightarrow> rat" where
  "mean vs = sum_list vs / of_nat (length vs)"

definition round_2 :: "rat \<Rightarrow> rat" where
  "round_2 x = of_int \<lfloor>x * 100 + 1 / 2\<rfloor> / 100"

definition near_tie :: "rat \<Rightarrow> bool" where
  "near_tie x = (\<bar>x - of_int \<lfloor>x\<rfloor> - 1 / 2\<bar> < 1 / 1000)"

subsection \<open>Sample data\<close>

definition row_1 :: content where
  "row_1 =
     \<lparr>id' = 1, category = ''Sustainable Fashion'', url = ''https://example.com/1'',
      source = ''Instagram'', time_spent_minutes = Some (1 / 4), upvotes = Some 100,
      views = Some 1000, engagement_score = Some (85 / 100), content_type = Some ''Video'',
      difficulty_level = Some ''Beginner'', trending_score = Some (90 / 100),
      created_at = Some ''2024-01-01 00:00:00'', updated_at = Some ''2024-01-01 00:00:00''\<rparr>"

definition row_2 :: content where
  "row_2 =
     \<lparr>id' = 2, category = ''Style Principles'', url = ''https://example.com/2'',
      source = ''TikTok'', time_spent_minutes = Some (1 / 2), upvotes = Some 150,
      views = Some 2000, engagement_score = Some (92 / 100), content_type = Some ''Video'',
      difficulty_level = Some ''Intermediate'', trending_score = Some (88 / 100),
      created_at = Some ''2024-01-02 00:00:00'', updated_at = Some ''2024-01-02 00:00:00''\<rparr>"

text \<open>A row whose content type and difficulty level are the text \<open>All\<close>.\<close>

definition row_3 :: content where
  "row_3 =
     \<lparr>id' = 3, category = ''Street Style'', url = ''https://example.com/3'',
      source = ''Substack'', time_spent_minutes = Some (121 / 10), upvotes = Some 75,
      views = Some 500, engagement_score = Some (78 / 100), content_type = Some ''All'',
      difficulty_level = Some ''All'', trending_score = Some (82 / 100),
      created_at = Some ''2024-01-03 00:00:00'', updated_at = Some ''2024-01-03 00:00:00''\<rparr>"

text \<open>A request with an empty query string, and a \<open>filters\<close> object without properties.\<close>

definition no_params :: search_params where
  "no_params =
     \<lparr>search_param = None, category_param = None, source_param = None,
      contentType_param = None, difficultyLevel_param = None, limit_param = None,
      offset_param = None\<rparr>"

definition no_filters :: filters where
  "no_filters =
     \<lparr>category_filter = None, source_filter = None, contentType = None,
      difficultyLevel = None, limit = None, offset = None\<rparr>"

section \<open>Properties of the SQL layer\<close>

lemma sql_and_True: "(sql_and a b = Some True) = (a = Some True \<and> b = Some True)"
  by (cases a; cases b) (auto simp: sql_and_def)

lemma sql_or_True: "(sql_or a b = Some True) = (a = Some True \<or> b = Some True)"
  by (cases a; cases b) (auto simp: sql_or_def)

lemma eval_and_all:
  "(eval (and_all e cs) r = Some True) =
     (eval e r = Some True \<and> (\<forall>c \<in> set cs. eval c r = Some True))"
  by (induction cs arbitrary: e) (auto simp: sql_and_True)

lemma keeps_where_of: "keeps (where_of cs) r = (\<forall>c \<in> set cs. eval c r = Some True)"
  by (cases cs) (auto simp: keeps_def where_of_def eval_and_all)

subsection \<open>The sort\<close>

lemma set_insert_row: "set (insert_row r xs) = insert r (set xs)"
  by (induction xs) auto

lemma set_order_by_scores: "set (order_by_scores rows) = set rows"
  by (induction rows) (auto simp: order_by_scores_def set_insert_row)

lemma length_insert_row: "length (insert_row r xs) = Suc (length xs)"
  by (induction xs) auto

lemma length_order_by_scores: "length (order_by_scores rows) = length rows"
  by (induction rows) (auto simp: order_by_scores_def length_insert_row)

lemma precedes_total: "\<not> precedes a b \<Longrightarrow> precedes b a"
  by (auto simp: precedes_def)

lemma precedes_trans: "precedes a b \<Longrightarrow> precedes b c \<Longrightarrow> precedes a c"
  by (auto simp: precedes_def)

lemma sorted_insert_row: "sorted_wrt precedes xs \<Longrightarrow> sorted_wrt precedes (insert_row r xs)"
  by (induction xs) (auto simp: set_insert_row dest: precedes_total precedes_trans)

lemma sorted_order_by_scores: "sorted_wrt precedes (order_by_scores rows)"
  by (induction rows) (auto simp: order_by_scores_def sorted_insert_row)

subsection \<open>Pagination\<close>

lemma sorted_sql_limit: "sorted_wrt P xs \<Longrightarrow> sorted_wrt P (sql_limit n k xs)"
  by (auto simp: sql_limit_def Let_def sorted_wrt_take sorted_wrt_drop split: option.splits)

lemma sorted_paginate: "sorted_wrt P xs \<Longrightarrow> sorted_wrt P (paginate l xs)"
  by (auto simp: paginate_def sorted_sql_limit split: option.splits)

lemma set_sql_limit: "set (sql_limit n k xs) \<subseteq> set xs"
  by (auto simp: sql_limit_def Let_def split: option.splits dest: in_set_takeD in_set_dropD)

lemma set_paginate: "set (paginate l xs) \<subseteq> set xs"
  using set_sql_limit by (fastforce simp: paginate_def split: option.splits)


lemma length_sql_limit: "0 \<le> n \<Longrightarrow> length (sql_limit n k xs) \<le> nat n"
  by (simp add: sql_limit_def Let_def)

lemma mset_insert_row: "mset (insert_row r xs) = add_mset r (mset xs)"
  by (induction xs) auto

lemma mset_order_by_scores: "mset (order_by_scores rows) = mset rows"
  by (induction rows) (auto simp: order_by_scores_def mset_insert_row)

section \<open>What the functions return\<close>

lemma bind_limit_None: "bind_limit None = Inr None"
  by (simp add: bind_limit_def)

lemma getAllContent_Content:
  "getAllContent (Content rows) f =
     (case bind_limit (pagination_of f) of
        Inl e \<Rightarrow> Inl Failed_to_fetch_content_data
      | Inr l \<Rightarrow>
          Inr (paginate l (order_by_scores (filter (keeps (where_of (conditions_of f))) rows))))"
  by (simp add: getAllContent_def getDatabase_def split: sum.splits)

lemma searchContent_Content:
  "searchContent (Content rows) q f =
     Inr (order_by_scores
            (filter (keeps (Some (and_all (search_clause q) (search_conditions_of f)))) rows))"
  by (simp add: searchContent_def getDatabase_def paginate_def bind_limit_None)

text \<open>
  \<open>getAllContent\<close> reads its filters only through the conditions and the pagination,
  \<open>searchContent\<close> only through its two conditions.
\<close>

lemma getAllContent_cong:
  "conditions_of f = conditions_of g \<Longrightarrow> pagination_of f = pagination_of g \<Longrightarrow>
   getAllContent db f = getAllContent db g"
  by (simp add: getAllContent_def cong: sum.case_cong)

lemma searchContent_cong:
  "search_conditions_of f = search_conditions_of g \<Longrightarrow>
   searchContent db q f = searchContent db q g"
  by (simp add: searchContent_def cong: sum.case_cong)

text \<open>
  On the table, the data route answers a search with status 200, and a request without
  search text with status 200 unless a number bound to \<open>LIMIT\<close> or \<open>OFFSET\<close> is refused.
\<close>

lemma GET_data_Content_search:
  assumes "trim (or_else (search_param p) []) \<noteq> []"
  shows "GET_data (Content rows) p =
     Json_200 (map transform (order_by_scores (filter
       (keeps (Some (and_all (search_clause (or_else (search_param p) []))
          (search_conditions_of (prepare_filters p))))) rows)))"
  using assms by (simp add: GET_data_def Let_def searchContent_Content)

lemma GET_data_Content_no_search:
  assumes "trim (or_else (search_param p) []) = []"
  shows "GET_data (Content rows) p =
     (case bind_limit (pagination_of (prepare_filters p)) of
        Inl e \<Rightarrow> Json_500 ''Failed to load data from database''
      | Inr l \<Rightarrow>
          Json_200 (map transform (paginate l (order_by_scores
            (filter (keeps (where_of (conditions_of (prepare_filters p)))) rows)))))"
  using assms by (simp add: GET_data_def Let_def getAllContent_Content split: sum.splits)

lemma GET_data_200D: "GET_data db p = Json_200 items \<Longrightarrow> \<exists>rows. db = Content rows"
  by (cases db)
     (auto simp: GET_data_def Let_def getAllContent_def searchContent_def getDatabase_def
        split: if_splits)

text \<open>Every answer with status 200 is a page of the sorted rows that the condition keeps.\<close>

lemma GET_data_200_rows:
  assumes "GET_data db p = Json_200 items"
  obtains rows w l where "db = Content rows"
    and "items = map transform (paginate l (order_by_scores (filter (keeps w) rows)))"
    and "trim (or_else (search_param p) []) = [] \<Longrightarrow>
           w = where_of (conditions_of (prepare_filters p))"
    and "trim (or_else (search_param p) []) \<noteq> [] \<Longrightarrow>
           w = Some (and_all (search_clause (or_else (search_param p) []))
                  (search_conditions_of (prepare_filters p)))"
proof -
  from assms obtain rows where db: "db = Content rows"
    using GET_data_200D by blast
  show thesis
  proof (cases "trim (or_else (search_param p) []) = []")
    case True
    with assms db obtain l where
      "items = map transform (paginate l (order_by_scores
          (filter (keeps (where_of (conditions_of (prepare_filters p)))) rows)))"
      by (auto simp: GET_data_Content_no_search split: sum.splits)
    with db True show thesis
      by (intro that) auto
  next
    case False
    with assms db have
      "items = map transform (paginate None (order_by_scores
          (filter (keeps (Some (and_all (search_clause (or_else (search_param p) []))
             (search_conditions_of (prepare_filters p))))) rows)))"
      by (simp add: GET_data_Content_search paginate_def)
    with db False show thesis
      by (intro that) auto
  qed
qed

lemma parseInt_Nil: "parseInt [] = NaN"
  by (simp add: parseInt_def)

lemma parseInt_zero: "parseInt ''0'' = Num 0"
  by code_simp

lemma search_conditions_of_prepare:
  "search_conditions_of (prepare_filters p) =
     unless_All Col_category (Some (or_else (category_param p) ''All'')) @
     unless_All Col_source (Some (or_else (source_param p) ''All''))"
  by (simp add: search_conditions_of_def prepare_filters_def)

lemma conditions_of_prepare:
  "conditions_of (prepare_filters p) =
     unless_All Col_category (Some (or_else (category_param p) ''All'')) @
     unless_All Col_source (Some (or_else (source_param p) ''All'')) @
     if_truthy Col_content_type (contentType_param p) @
     if_truthy Col_difficulty_level (difficultyLevel_param p)"
  by (cases "contentType_param p"; cases "difficultyLevel_param p")
     (simp_all add: conditions_of_def prepare_filters_def if_truthy_def or_else_def)

lemma pagination_of_prepare:
  "pagination_of (prepare_filters p) =
     (case truthy_number (parse_optional (limit_param p)) of
        Some n \<Rightarrow> Some (n, truthy_number (parse_optional (offset_param p)))
      | None \<Rightarrow> None)"
  by (simp add: pagination_of_def prepare_filters_def cong: option.case_cong)

text \<open>
  Two requests get the same answer when they agree on the search text, on the two
  conditions of the search and, where the search text is blank, on the conditions and
  the pagination of \<open>getAllContent\<close>.
\<close>

lemma GET_data_cong:
  assumes "or_else (search_param p) [] = or_else (search_param q) []"
    and "search_conditions_of (prepare_filters p) = search_conditions_of (prepare_filters q)"
    and "trim (or_else (search_param p) []) = [] \<Longrightarrow>
           conditions_of (prepare_filters p) = conditions_of (prepare_filters q) \<and>
           pagination_of (prepare_filters p) = pagination_of (prepare_filters q)"
  shows "GET_data db p = GET_data db q"
proof (cases "trim (or_else (search_param p) []) = []")
  case True
  with assms have "getAllContent db (prepare_filters p) = getAllContent db (prepare_filters q)"
    by (intro getAllContent_cong) simp_all
  with True assms(1) show ?thesis
    by (simp add: GET_data_def Let_def)
next
  case False
  have "searchContent db (or_else (search_param q) []) (prepare_filters p) =
        searchContent db (or_else (search_param q) []) (prepare_filters q)"
    using assms(2) by (rule searchContent_cong)
  with False assms(1) show ?thesis
    by (simp add: GET_data_def Let_def)
qed

section \<open>The result order\<close>

lemma sorted_transform: "sorted_wrt precedes rows \<Longrightarrow> scores_descending (map transform rows)"
  by (simp add: scores_descending_def sorted_wrt_map precedes_def [abs_def] transform_def)

text \<open>
  Claim C6. For every state of the database, every search text and every combination
  of filters and pagination, the records the data route returns are sorted by
  \<open>Engagement_Score\<close> descending, ties broken by \<open>Trending_Score\<close> descending (a NULL
  score last).
\<close>

theorem results_sorted_by_scores:
  "GET_data db p = Json_200 items \<Longrightarrow> scores_descending items"
proof -
  assume "GET_data db p = Json_200 items"
  then obtain rows w l where
    "items = map transform (paginate l (order_by_scores (filter (keeps w) rows)))"
    by (rule GET_data_200_rows)
  then show ?thesis
    by (simp add: sorted_transform sorted_paginate sorted_order_by_scores)
qed

theorem results_sorted_by_scores_witness:
  "GET_data (Content [row_1, row_2]) no_params = Json_200 [transform row_2, transform row_1] \<and>
   scores_descending [transform row_2, transform row_1]"
proof -
  have e: "GET_data (Content [row_1, row_2]) no_params =
             Json_200 [transform row_2, transform row_1]"
    by code_simp
  from results_sorted_by_scores [OF e] e show ?thesis by simp
qed

section \<open>What the conditions say\<close>

text \<open>
  The conditions that \<open>getAllContent\<close> collects say what the specification's filters
  say, for a \<open>filters\<close> object and for the object the route prepares.
\<close>

lemma unless_All_holds:
  "(\<forall>c \<in> set (unless_All col v). eval c r = Some True) =
     filter_holds True v (column_value col r)"
  by (cases v) (auto simp: unless_All_def filter_holds_def)

lemma if_truthy_holds:
  "(\<forall>c \<in> set (if_truthy col v). eval c r = Some True) =
     filter_holds False v (column_value col r)"
  by (cases v) (auto simp: if_truthy_def filter_holds_def)

lemma keeps_conditions_of:
  "keeps (where_of (conditions_of f)) r = matches_filters f r"
  using unless_All_holds [of Col_category "category_filter f" r]
    unless_All_holds [of Col_source "source_filter f" r]
    if_truthy_holds [of Col_content_type "contentType f" r]
    if_truthy_holds [of Col_difficulty_level "difficultyLevel f" r]
  by (simp add: keeps_where_of conditions_of_def matches_filters_def ball_Un)

lemma filter_holds_default:
  "filter_holds True (Some (or_else v ''All'')) field = filter_holds True v field"
  by (cases v) (auto simp: filter_holds_def or_else_def)

lemma keeps_conditions_of_prepare:
  "keeps (where_of (conditions_of (prepare_filters p))) r = matches_request p r"
  using unless_All_holds [of Col_category "Some (or_else (category_param p) ''All'')" r]
    unless_All_holds [of Col_source "Some (or_else (source_param p) ''All'')" r]
    if_truthy_holds [of Col_content_type "contentType_param p" r]
    if_truthy_holds [of Col_difficulty_level "difficultyLevel_param p" r]
  by (simp add: keeps_where_of conditions_of_prepare matches_request_def ball_Un
      filter_holds_default)

section \<open>Pagination of the data route\<close>

text \<open>
  Claim C9. An offset without a limit changes nothing: with no \<open>limit\<close> parameter,
  the data route answers a request with \<open>offset=k\<close> as it answers the same request
  without an offset, for every database, search text and filters; and so does
  \<open>getAllContent\<close> for a \<open>filters\<close> object without a limit.
\<close>

theorem offset_without_limit:
  "(limit_param p = None \<longrightarrow>
      GET_data db (p\<lparr>offset_param := Some k\<rparr>) = GET_data db (p\<lparr>offset_param := None\<rparr>)) \<and>
   (limit f = None \<longrightarrow>
      getAllContent db (f\<lparr>offset := Some j\<rparr>) = getAllContent db (f\<lparr>offset := None\<rparr>))"
proof (intro conjI impI)
  assume "limit_param p = None"
  then show "GET_data db (p\<lparr>offset_param := Some k\<rparr>) = GET_data db (p\<lparr>offset_param := None\<rparr>)"
    by (intro GET_data_cong)
       (simp_all add: search_conditions_of_prepare conditions_of_prepare pagination_of_prepare
          parse_optional_def)
next
  assume "limit f = None"
  then show "getAllContent db (f\<lparr>offset := Some j\<rparr>) = getAllContent db (f\<lparr>offset := None\<rparr>)"
    by (intro getAllContent_cong) (simp_all add: conditions_of_def pagination_of_def)
qed

theorem offset_without_limit_witness:
  "limit_param no_params = None \<and>
   GET_data (Content [row_1, row_2]) (no_params\<lparr>offset_param := Some ''1''\<rparr>) =
     GET_data (Content [row_1, row_2]) (no_params\<lparr>offset_param := None\<rparr>) \<and>
   GET_data (Content [row_1, row_2]) (no_params\<lparr>offset_param := None\<rparr>) =
     Json_200 [transform row_2, transform row_1]"
proof -
  have l: "limit_param no_params = None"
    by (simp add: no_params_def)
  have e: "GET_data (Content [row_1, row_2]) (no_params\<lparr>offset_param := None\<rparr>) =
             Json_200 [transform row_2, transform row_1]"
    by code_simp
  from offset_without_limit [of no_params "Content [row_1, row_2]" "''1''"] l e
  show ?thesis by simp
qed

lemma pagination_limit_zero: "pagination_of (f\<lparr>limit := Some (Num 0)\<rparr>) = None"
  by (simp add: pagination_of_def)

lemma pagination_limit_param_zero:
  "pagination_of (prepare_filters (p\<lparr>limit_param := Some ''0''\<rparr>)) = None"
  by (simp add: pagination_of_prepare parse_optional_def parseInt_zero)

text \<open>
  Claim C10. \<open>limit=0\<close> is no limit: \<open>0\<close> is falsy, so no \<open>LIMIT\<close> is written. The
  data route answers a request with \<open>limit=0\<close> as it answers the same request without
  a limit. \<open>getAllContent\<close> with the limit \<open>0\<close> returns every row of the table that
  matches the filters, each as often as the table holds it, in the result order. And
  the data route, without search text, answers \<open>limit=0\<close> with status 200 and every
  record that matches the filters of the request, in the result order.
\<close>

theorem limit_zero_is_no_limit:
  "GET_data db (p\<lparr>limit_param := Some ''0''\<rparr>) = GET_data db (p\<lparr>limit_param := None\<rparr>) \<and>
   (\<exists>rs. getAllContent (Content rows) (f\<lparr>limit := Some (Num 0)\<rparr>) = Inr rs \<and>
         mset rs = mset (filter (matches_filters f) rows) \<and> sorted_wrt precedes rs) \<and>
   (trim (or_else (search_param p) []) = [] \<longrightarrow>
      (\<exists>items. GET_data (Content rows) (p\<lparr>limit_param := Some ''0''\<rparr>) = Json_200 items \<and>
         mset items = mset (map transform (filter (matches_request p) rows)) \<and>
         scores_descending items))"
proof (intro conjI impI)
  show "GET_data db (p\<lparr>limit_param := Some ''0''\<rparr>) = GET_data db (p\<lparr>limit_param := None\<rparr>)"
    by (intro GET_data_cong)
       (simp_all add: search_conditions_of_prepare conditions_of_prepare pagination_of_prepare
          parse_optional_def parseInt_zero)
next
  let ?f = "f\<lparr>limit := Some (Num 0)\<rparr>"
  let ?rs = "order_by_scores (filter (keeps (where_of (conditions_of ?f))) rows)"
  have "matches_filters ?f = matches_filters f"
    by (simp add: matches_filters_def fun_eq_iff)
  then have "filter (keeps (where_of (conditions_of ?f))) rows = filter (matches_filters f) rows"
    by (simp add: keeps_conditions_of [abs_def])
  then have "getAllContent (Content rows) ?f = Inr ?rs \<and>
      mset ?rs = mset (filter (matches_filters f) rows) \<and> sorted_wrt precedes ?rs"
    by (simp add: getAllContent_Content pagination_limit_zero bind_limit_None paginate_def
        mset_order_by_scores sorted_order_by_scores)
  then show "\<exists>rs. getAllContent (Content rows) ?f = Inr rs \<and>
      mset rs = mset (filter (matches_filters f) rows) \<and> sorted_wrt precedes rs"
    by blast
next
  assume no_search: "trim (or_else (search_param p) []) = []"
  let ?p = "p\<lparr>limit_param := Some ''0''\<rparr>"
  let ?rs = "order_by_scores (filter (keeps (where_of (conditions_of (prepare_filters ?p)))) rows)"
  have "matches_request ?p = matches_request p"
    by (simp add: matches_request_def fun_eq_iff)
  then have rows: "filter (keeps (where_of (conditions_of (prepare_filters ?p)))) rows =
      filter (matches_request p) rows"
    by (simp add: keeps_conditions_of_prepare [abs_def])
  have "GET_data (Content rows) ?p = Json_200 (map transform ?rs)"
    using no_search
    by (simp add: GET_data_Content_no_search pagination_limit_param_zero bind_limit_None
        paginate_def)
  moreover have "mset (map transform ?rs) = mset (map transform (filter (matches_request p) rows))"
    by (simp add: rows mset_order_by_scores)
  moreover have "scores_descending (map transform ?rs)"
    by (simp add: sorted_transform sorted_order_by_scores)
  ultimately show "\<exists>items. GET_data (Content rows) ?p = Json_200 items \<and>
      mset items = mset (map transform (filter (matches_request p) rows)) \<and>
      scores_descending items"
    by blast
qed

theorem limit_zero_is_no_limit_witness:
  "GET_data (Content [row_1, row_2, row_3]) (no_params\<lparr>limit_param := Some ''0''\<rparr>) =
     GET_data (Content [row_1, row_2, row_3]) (no_params\<lparr>limit_param := None\<rparr>) \<and>
   GET_data (Content [row_1, row_2, row_3]) (no_params\<lparr>limit_param := Some ''0''\<rparr>) =
     Json_200 [transform row_2, transform row_1, transform row_3] \<and>
   filter (matches_request no_params) [row_1, row_2, row_3] = [row_1, row_2, row_3]"
proof -
  have 1: "trim (or_else (search_param no_params) []) = []"
    by (simp add: no_params_def or_else_def trim_def)
  have 2: "GET_data (Content [row_1, row_2, row_3]) (no_params\<lparr>limit_param := Some ''0''\<rparr>) =
             Json_200 [transform row_2, transform row_1, transform row_3]"
    by code_simp
  have 3: "filter (matches_request no_params) [row_1, row_2, row_3] = [row_1, row_2, row_3]"
    by (simp add: matches_request_def filter_holds_def no_params_def)
  from limit_zero_is_no_limit [of "Content [row_1, row_2, row_3]" no_params "[row_1, row_2, row_3]"]
    1 2 3
  show ?thesis by simp
qed

text \<open>
  A limit and an offset inside the 64-bit range are bound as they are; a limit that is
  bound bounds the page.
\<close>

lemma bind_limit_in_range:
  assumes "- (2 ^ 63) < n" "n < 2 ^ 63"
  shows "bind_limit (Some (Num n, None)) = Inr (Some (n, None))"
    and "- (2 ^ 63) < k \<Longrightarrow> k < 2 ^ 63 \<Longrightarrow>
         bind_limit (Some (Num n, Some (Num k))) = Inr (Some (n, Some k))"
  using assms by (simp_all add: bind_limit_def)

lemma bind_limit_Inr:
  assumes "bind_limit (Some (Num n, k)) = Inr l"
  shows "\<exists>k'. l = Some (n, k')"
  using assms by (auto simp: bind_limit_def split: option.splits if_splits)

text \<open>
  Claim C4, as the code has it. Without search text (the \<open>search\<close> parameter absent or
  blank), a request with \<open>limit=n\<close>, \<open>1 \<le> n < 2\<^sup>6\<^sup>3\<close>, returns at most \<open>n\<close> records:
  without an offset the first \<open>n\<close> of the records that the same request without
  \<open>limit\<close> and \<open>offset\<close> returns, and with \<open>offset=k\<close>, \<open>0 \<le> k < 2\<^sup>6\<^sup>3\<close>, the first
  \<open>n\<close> after skipping exactly \<open>k\<close> of them. \<open>n\<close> and \<open>k\<close> are the numbers that
  \<open>parseInt\<close> reads.
\<close>

theorem limit_and_offset:
  assumes no_search: "trim (or_else (search_param p) []) = []"
    and l: "limit_param p = Some l" "parseInt l = Num n" "1 \<le> n" "n < 2 ^ 63"
    and m: "GET_data db (p\<lparr>limit_param := None, offset_param := None\<rparr>) = Json_200 matching"
  shows "(offset_param p = None \<longrightarrow> GET_data db p = Json_200 (take (nat n) matching)) \<and>
         (\<forall>s k. offset_param p = Some s \<and> parseInt s = Num k \<and> 0 \<le> k \<and> k < 2 ^ 63 \<longrightarrow>
            GET_data db p = Json_200 (take (nat n) (drop (nat k) matching))) \<and>
         (\<forall>items. GET_data db p = Json_200 items \<longrightarrow> length items \<le> nat n)"
proof -
  from m obtain rows where db: "db = Content rows"
    using GET_data_200D by blast
  let ?sorted = "order_by_scores (filter (keeps (where_of (conditions_of (prepare_filters p)))) rows)"
  let ?off = "truthy_number (parse_optional (offset_param p))"
  have "l \<noteq> []"
    using l(2) by (auto simp: parseInt_Nil)
  then have lim: "pagination_of (prepare_filters p) = Some (Num n, ?off)"
    using l by (simp add: pagination_of_prepare parse_optional_def)
  have matching: "matching = map transform ?sorted"
    using m no_search unfolding db
    by (simp add: GET_data_Content_no_search conditions_of_prepare pagination_of_prepare
        parse_optional_def paginate_def bind_limit_None)
  have page: "GET_data db p =
      (case bind_limit (Some (Num n, ?off)) of
         Inl e \<Rightarrow> Json_500 ''Failed to load data from database''
       | Inr l \<Rightarrow> Json_200 (map transform (paginate l ?sorted)))"
    using no_search unfolding db by (simp add: GET_data_Content_no_search lim)
  have none: "GET_data db p = Json_200 (take (nat n) matching)" if "offset_param p = None"
  proof -
    from that have "?off = None"
      by (simp add: parse_optional_def)
    with l show ?thesis
      by (simp add: page bind_limit_in_range paginate_def sql_limit_def matching take_map)
  qed
  have some: "GET_data db p = Json_200 (take (nat n) (drop (nat k) matching))"
    if "offset_param p = Some s" "parseInt s = Num k" "0 \<le> k" "k < 2 ^ 63" for s k
  proof (cases "k = 0")
    case True
    with that have "?off = None"
      by (cases "s = []") (simp_all add: parse_optional_def)
    with l True show ?thesis
      by (simp add: page bind_limit_in_range paginate_def sql_limit_def matching take_map)
  next
    case False
    with that have "s \<noteq> []"
      by (auto simp: parseInt_Nil)
    with that False have "?off = Some (Num k)"
      by (simp add: parse_optional_def)
    with l that show ?thesis
      by (simp add: page bind_limit_in_range paginate_def sql_limit_def matching take_map
          drop_map)
  qed
  have len: "length items \<le> nat n" if "GET_data db p = Json_200 items" for items
  proof -
    from that obtain l' where b: "bind_limit (Some (Num n, ?off)) = Inr l'"
      and i: "items = map transform (paginate l' ?sorted)"
      by (auto simp: page split: sum.splits)
    from bind_limit_Inr [OF b] obtain k' where "l' = Some (n, k')"
      by blast
    with i l(3) show ?thesis
      by (simp add: paginate_def length_sql_limit)
  qed
  from none some len show ?thesis
    by blast
qed

theorem limit_and_offset_witness:
  "GET_data (Content [row_1, row_2, row_3])
     (no_params\<lparr>limit_param := Some ''1'', offset_param := Some ''1''\<rparr>) =
     Json_200 (take 1 (drop 1 [transform row_2, transform row_1, transform row_3])) \<and>
   GET_data (Content [row_1, row_2, row_3])
     (no_params\<lparr>limit_param := Some ''1'', offset_param := Some ''1''\<rparr>) =
     Json_200 [transform row_1]"
proof -
  let ?p = "no_params\<lparr>limit_param := Some ''1'', offset_param := Some ''1''\<rparr>"
  have 1: "trim (or_else (search_param ?p) []) = []"
    by (simp add: no_params_def or_else_def trim_def)
  have 2: "limit_param ?p = Some ''1''"
    by simp
  have 3: "parseInt ''1'' = Num 1"
    by code_simp
  have 4: "(1::int) \<le> 1" "(1::int) < 2 ^ 63" "(0::int) \<le> 1"
    by simp_all
  have 5: "GET_data (Content [row_1, row_2, row_3]) (?p\<lparr>limit_param := None, offset_param := None\<rparr>) =
             Json_200 [transform row_2, transform row_1, transform row_3]"
    by code_simp
  have 6: "offset_param ?p = Some ''1''"
    by simp
  from limit_and_offset [OF 1 2 3 4(1) 4(2) 5] 6 3 4
  have "GET_data (Content [row_1, row_2, row_3]) ?p =
          Json_200 (take (nat 1) (drop (nat 1) [transform row_2, transform row_1, transform row_3]))"
    by blast
  then show ?thesis by simp
qed

text \<open>
  Claim C4 as stated fails on a table of two rows. With search text the limit is not
  read, so \<open>search=video&limit=1\<close> returns both rows. \<open>limit=0\<close> returns both rows, not
  at most none. And a limit or an offset of \<open>2\<^sup>6\<^sup>3\<close> is refused by SQLite: the answer
  has status 500 and no page.
\<close>

theorem limit_counterexample:
  "GET_data (Content [row_1, row_2])
     (no_params\<lparr>search_param := Some ''video'', limit_param := Some ''1''\<rparr>) =
     Json_200 [transform row_2, transform row_1] \<and>
   GET_data (Content [row_1, row_2]) (no_params\<lparr>limit_param := Some ''0''\<rparr>) =
     Json_200 [transform row_2, transform row_1] \<and>
   GET_data (Content [row_1, row_2])
     (no_params\<lparr>limit_param := Some ''1'', offset_param := Some ''9223372036854775808''\<rparr>) =
     Json_500 ''Failed to load data from database'' \<and>
   GET_data (Content [row_1, row_2]) (no_params\<lparr>limit_param := Some ''9223372036854775808''\<rparr>) =
     Json_500 ''Failed to load data from database''"
  by code_simp

section \<open>Malformed numbers\<close>

text \<open>
  Claim C5, as the code has it. The data route does not validate \<open>limit\<close> and
  \<open>offset\<close>: a text that \<open>parseInt\<close> turns into \<open>NaN\<close> is falsy, and the request is
  answered exactly as the same request without that parameter. Without search text a
  request with such a \<open>limit\<close> is answered with status 200 whenever the table is
  there.
\<close>

theorem malformed_number_ignored:
  "parseInt s = NaN \<Longrightarrow>
   GET_data db (p\<lparr>limit_param := Some s\<rparr>) = GET_data db (p\<lparr>limit_param := None\<rparr>) \<and>
   GET_data db (p\<lparr>offset_param := Some s\<rparr>) = GET_data db (p\<lparr>offset_param := None\<rparr>) \<and>
   (trim (or_else (search_param p) []) = [] \<longrightarrow>
      (\<exists>items. GET_data (Content rows) (p\<lparr>limit_param := Some s\<rparr>) = Json_200 items))"
proof (intro conjI impI)
  assume nan: "parseInt s = NaN"
  show "GET_data db (p\<lparr>limit_param := Some s\<rparr>) = GET_data db (p\<lparr>limit_param := None\<rparr>)"
    using nan
    by (intro GET_data_cong)
       (simp_all add: search_conditions_of_prepare conditions_of_prepare pagination_of_prepare
          parse_optional_def)
  show "GET_data db (p\<lparr>offset_param := Some s\<rparr>) = GET_data db (p\<lparr>offset_param := None\<rparr>)"
    using nan
    by (intro GET_data_cong)
       (simp_all add: search_conditions_of_prepare conditions_of_prepare pagination_of_prepare
          parse_optional_def cong: option.case_cong)
  assume "trim (or_else (search_param p) []) = []"
  with nan show "\<exists>items. GET_data (Content rows) (p\<lparr>limit_param := Some s\<rparr>) = Json_200 items"
    by (simp add: GET_data_Content_no_search pagination_of_prepare parse_optional_def
        bind_limit_None)
qed

theorem malformed_number_ignored_witness:
  "parseInt ''abc'' = NaN \<and> trim (or_else (search_param no_params) []) = [] \<and>
   GET_data (Content [row_1, row_2]) (no_params\<lparr>limit_param := Some ''abc''\<rparr>) =
     GET_data (Content [row_1, row_2]) (no_params\<lparr>limit_param := None\<rparr>) \<and>
   GET_data (Content [row_1, row_2]) (no_params\<lparr>offset_param := Some ''abc''\<rparr>) =
     GET_data (Content [row_1, row_2]) (no_params\<lparr>offset_param := None\<rparr>) \<and>
   GET_data (Content [row_1, row_2]) (no_params\<lparr>limit_param := None\<rparr>) =
     Json_200 [transform row_2, transform row_1]"
proof -
  have n: "parseInt ''abc'' = NaN"
    by code_simp
  have e: "GET_data (Content [row_1, row_2]) (no_params\<lparr>limit_param := None\<rparr>) =
             Json_200 [transform row_2, transform row_1]"
    by code_simp
  have t: "trim (or_else (search_param no_params) []) = []"
    by (simp add: no_params_def or_else_def trim_def)
  from malformed_number_ignored [OF n, of "Content [row_1, row_2]" no_params] n e t
  show ?thesis by simp
qed

text \<open>
  Claim C5 as stated fails: \<open>limit=abc\<close> is answered with status 200 and every row,
  and \<open>limit=1&offset=x\<close> with status 200 and the first row.
\<close>

theorem malformed_number_counterexample:
  "GET_data (Content [row_1, row_2]) (no_params\<lparr>limit_param := Some ''abc''\<rparr>) =
     Json_200 [transform row_2, transform row_1] \<and>
   GET_data (Content [row_1, row_2]) (no_params\<lparr>limit_param := Some ''1'', offset_param := Some ''x''\<rparr>) =
     Json_200 [transform row_2]"
  by code_simp

section \<open>Filters\<close>

lemma returned_rows_keep:
  assumes "r \<in> set (paginate l (order_by_scores (filter (keeps (where_of cs)) rows)))"
    and "c \<in> set cs"
  shows "eval c r = Some True"
proof -
  have "set (paginate l (order_by_scores (filter (keeps (where_of cs)) rows)))
          \<subseteq> set (order_by_scores (filter (keeps (where_of cs)) rows))"
    by (rule set_paginate)
  with assms(1) have "r \<in> set (filter (keeps (where_of cs)) rows)"
    unfolding set_order_by_scores by (rule subsetD [rotated])
  with assms(2) show ?thesis
    by (simp add: keeps_where_of)
qed

lemma in_if_truthy: "v \<noteq> [] \<Longrightarrow> Equals col v \<in> set (if_truthy col (Some v))"
  by (simp add: if_truthy_def)

lemma in_unless_All:
  "v \<noteq> [] \<Longrightarrow> v \<noteq> ''All'' \<Longrightarrow> Equals col v \<in> set (unless_All col (Some (or_else (Some v) ''All'')))"
  by (simp add: unless_All_def or_else_def)

text \<open>
  Without search text every returned record satisfies each of the four filters that was
  sent; \<open>All\<close> is no filter for category and source only.
\<close>

lemma without_search_filters_hold:
  assumes no_search: "trim (or_else (search_param p) []) = []"
    and ok: "GET_data db p = Json_200 items"
    and i: "i \<in> set items"
  shows "(\<forall>c. category_param p = Some c \<and> c \<noteq> [] \<and> c \<noteq> ''All'' \<longrightarrow> Category i = c) \<and>
         (\<forall>c. source_param p = Some c \<and> c \<noteq> [] \<and> c \<noteq> ''All'' \<longrightarrow> Source i = c) \<and>
         (\<forall>c. contentType_param p = Some c \<and> c \<noteq> [] \<longrightarrow> Content_Type i = Some c) \<and>
         (\<forall>c. difficultyLevel_param p = Some c \<and> c \<noteq> [] \<longrightarrow> Difficulty_Level i = Some c)"
proof -
  from ok obtain rows where db: "db = Content rows"
    using GET_data_200D by blast
  from ok no_search obtain l where
    items: "items = map transform (paginate l (order_by_scores
        (filter (keeps (where_of (conditions_of (prepare_filters p)))) rows)))"
    unfolding db by (auto simp: GET_data_Content_no_search split: sum.splits)
  with i obtain r where r: "i = transform r"
    "r \<in> set (paginate l (order_by_scores
        (filter (keeps (where_of (conditions_of (prepare_filters p)))) rows)))"
    by auto
  have k: "c \<in> set (conditions_of (prepare_filters p)) \<Longrightarrow> eval c r = Some True" for c
    using returned_rows_keep [OF r(2)] .
  show ?thesis
  proof (intro conjI allI impI)
    fix c assume "category_param p = Some c \<and> c \<noteq> [] \<and> c \<noteq> ''All''"
    then have "Equals Col_category c \<in> set (conditions_of (prepare_filters p))"
      using in_unless_All [of c Col_category] by (simp add: conditions_of_prepare)
    from k [OF this] show "Category i = c"
      by (simp add: r(1) transform_def)
  next
    fix c assume "source_param p = Some c \<and> c \<noteq> [] \<and> c \<noteq> ''All''"
    then have "Equals Col_source c \<in> set (conditions_of (prepare_filters p))"
      using in_unless_All [of c Col_source] by (simp add: conditions_of_prepare)
    from k [OF this] show "Source i = c"
      by (simp add: r(1) transform_def)
  next
    fix c assume "contentType_param p = Some c \<and> c \<noteq> []"
    then have "Equals Col_content_type c \<in> set (conditions_of (prepare_filters p))"
      using in_if_truthy [of c Col_content_type] by (simp add: conditions_of_prepare)
    from k [OF this] show "Content_Type i = Some c"
      by (auto simp: r(1) transform_def)
  next
    fix c assume "difficultyLevel_param p = Some c \<and> c \<noteq> []"
    then have "Equals Col_difficulty_level c \<in> set (conditions_of (prepare_filters p))"
      using in_if_truthy [of c Col_difficulty_level] by (simp add: conditions_of_prepare)
    from k [OF this] show "Difficulty_Level i = Some c"
      by (auto simp: r(1) transform_def)
  qed
qed

text \<open>
  With search text every returned record satisfies the search clause and the category
  and source filters.
\<close>

lemma with_search_conditions_hold:
  assumes search: "trim (or_else (search_param p) []) \<noteq> []"
    and ok: "GET_data db p = Json_200 items"
    and i: "i \<in> set items"
  shows "(\<exists>r. i = transform r \<and> eval (search_clause (or_else (search_param p) [])) r = Some True) \<and>
         (\<forall>c. category_param p = Some c \<and> c \<noteq> [] \<and> c \<noteq> ''All'' \<longrightarrow> Category i = c) \<and>
         (\<forall>c. source_param p = Some c \<and> c \<noteq> [] \<and> c \<noteq> ''All'' \<longrightarrow> Source i = c)"
proof -
  from ok obtain rows where db: "db = Content rows"
    using GET_data_200D by blast
  let ?q = "or_else (search_param p) []"
  let ?cs = "search_conditions_of (prepare_filters p)"
  let ?rs = "order_by_scores (filter (keeps (Some (and_all (search_clause ?q) ?cs))) rows)"
  from ok search have "items = map transform ?rs"
    unfolding db by (simp add: GET_data_Content_search)
  with i obtain r where r: "i = transform r" "r \<in> set ?rs"
    by auto
  then have e: "eval (and_all (search_clause ?q) ?cs) r = Some True"
    by (simp add: set_order_by_scores keeps_def)
  then have s: "eval (search_clause ?q) r = Some True"
    and k: "c \<in> set ?cs \<Longrightarrow> eval c r = Some True" for c
    by (simp_all add: eval_and_all)
  show ?thesis
  proof (intro conjI allI impI)
    show "\<exists>r. i = transform r \<and> eval (search_clause ?q) r = Some True"
      using r(1) s by blast
  next
    fix c assume "category_param p = Some c \<and> c \<noteq> [] \<and> c \<noteq> ''All''"
    then have "Equals Col_category c \<in> set ?cs"
      using in_unless_All [of c Col_category] by (simp add: search_conditions_of_prepare)
    from k [OF this] show "Category i = c"
      by (simp add: r(1) transform_def)
  next
    fix c assume "source_param p = Some c \<and> c \<noteq> [] \<and> c \<noteq> ''All''"
    then have "Equals Col_source c \<in> set ?cs"
      using in_unless_All [of c Col_source] by (simp add: search_conditions_of_prepare)
    from k [OF this] show "Source i = c"
      by (simp add: r(1) transform_def)
  qed
qed

text \<open>
  Claim C1 fails on \<open>search=fashion&contentType=Article\<close>: \<open>searchContent\<close> does not
  read \<open>contentType\<close> (nor \<open>difficultyLevel\<close>), so the route returns a record whose
  content type is \<open>Video\<close>. Without the search text, \<open>getAllContent\<close> applies the same
  filter and returns nothing.
\<close>

theorem search_ignores_content_type:
  "GET_data (Content [row_1, row_2])
     (no_params\<lparr>search_param := Some ''fashion'', contentType_param := Some ''Article''\<rparr>) =
     Json_200 [transform row_1] \<and>
   Content_Type (transform row_1) = Some ''Video'' \<and>
   GET_data (Content [row_1, row_2]) (no_params\<lparr>contentType_param := Some ''Article''\<rparr>) =
     Json_200 []"
  by code_simp

text \<open>
  The guard \<open>!== 'All'\<close> writes no condition for \<open>All\<close>, as for a property that is
  not there. Without a limit \<open>getAllContent\<close> returns the rows that match its filters.
\<close>

lemma unless_All_All: "unless_All col (Some ''All'') = unless_All col None"
  by (simp add: unless_All_def)

lemma all_rows_without_limit:
  assumes "limit f = None"
  shows "\<exists>rs. getAllContent (Content rows) f = Inr rs \<and>
           mset rs = mset (filter (matches_filters f) rows)"
  using assms
  by (simp add: getAllContent_Content pagination_of_def bind_limit_None paginate_def
      mset_order_by_scores keeps_conditions_of [abs_def])

text \<open>
  Claim C3, as the code has it. For category and for source, \<open>All\<close> is no filter:
  \<open>getAllContent\<close> and \<open>searchContent\<close> return for the filter value \<open>All\<close> what they
  return without that filter, for every database, search text and other filters;
  without a limit that is every row of the table that matches the other filters; and
  the data route answers \<open>category=All\<close> and \<open>source=All\<close> as it answers the request
  without the parameter. For content type and difficulty level \<open>All\<close> is a value like
  any other: without search text the route returns only records whose field is the
  text \<open>All\<close>.
\<close>

theorem All_for_category_and_source:
  "getAllContent db (f\<lparr>category_filter := Some ''All''\<rparr>) =
     getAllContent db (f\<lparr>category_filter := None\<rparr>) \<and>
   getAllContent db (f\<lparr>source_filter := Some ''All''\<rparr>) =
     getAllContent db (f\<lparr>source_filter := None\<rparr>) \<and>
   searchContent db q (f\<lparr>category_filter := Some ''All''\<rparr>) =
     searchContent db q (f\<lparr>category_filter := None\<rparr>) \<and>
   searchContent db q (f\<lparr>source_filter := Some ''All''\<rparr>) =
     searchContent db q (f\<lparr>source_filter := None\<rparr>) \<and>
   (limit f = None \<longrightarrow>
      (\<exists>rs. getAllContent (Content rows) (f\<lparr>category_filter := Some ''All''\<rparr>) = Inr rs \<and>
         mset rs = mset (filter (matches_filters (f\<lparr>category_filter := None\<rparr>)) rows)) \<and>
      (\<exists>rs. getAllContent (Content rows) (f\<lparr>source_filter := Some ''All''\<rparr>) = Inr rs \<and>
         mset rs = mset (filter (matches_filters (f\<lparr>source_filter := None\<rparr>)) rows))) \<and>
   GET_data db (p\<lparr>category_param := Some ''All''\<rparr>) = GET_data db (p\<lparr>category_param := None\<rparr>) \<and>
   GET_data db (p\<lparr>source_param := Some ''All''\<rparr>) = GET_data db (p\<lparr>source_param := None\<rparr>) \<and>
   (trim (or_else (search_param p) []) = [] \<longrightarrow>
      (\<forall>items. GET_data db (p\<lparr>contentType_param := Some ''All''\<rparr>) = Json_200 items \<longrightarrow>
         (\<forall>i \<in> set items. Content_Type i = Some ''All'')) \<and>
      (\<forall>items. GET_data db (p\<lparr>difficultyLevel_param := Some ''All''\<rparr>) = Json_200 items \<longrightarrow>
         (\<forall>i \<in> set items. Difficulty_Level i = Some ''All'')))"
proof (intro conjI impI allI ballI)
  show c: "getAllContent db (f\<lparr>category_filter := Some ''All''\<rparr>) =
      getAllContent db (f\<lparr>category_filter := None\<rparr>)"
    by (intro getAllContent_cong) (simp_all add: conditions_of_def pagination_of_def unless_All_All cong: option.case_cong)
  show s: "getAllContent db (f\<lparr>source_filter := Some ''All''\<rparr>) =
      getAllContent db (f\<lparr>source_filter := None\<rparr>)"
    by (intro getAllContent_cong) (simp_all add: conditions_of_def pagination_of_def unless_All_All cong: option.case_cong)
  show "searchContent db q (f\<lparr>category_filter := Some ''All''\<rparr>) =
      searchContent db q (f\<lparr>category_filter := None\<rparr>)"
    by (intro searchContent_cong) (simp add: search_conditions_of_def unless_All_All)
  show "searchContent db q (f\<lparr>source_filter := Some ''All''\<rparr>) =
      searchContent db q (f\<lparr>source_filter := None\<rparr>)"
    by (intro searchContent_cong) (simp add: search_conditions_of_def unless_All_All)
  show "GET_data db (p\<lparr>category_param := Some ''All''\<rparr>) = GET_data db (p\<lparr>category_param := None\<rparr>)"
    by (intro GET_data_cong)
       (simp_all add: search_conditions_of_prepare conditions_of_prepare pagination_of_prepare
          or_else_def cong: option.case_cong)
  show "GET_data db (p\<lparr>source_param := Some ''All''\<rparr>) = GET_data db (p\<lparr>source_param := None\<rparr>)"
    by (intro GET_data_cong)
       (simp_all add: search_conditions_of_prepare conditions_of_prepare pagination_of_prepare
          or_else_def cong: option.case_cong)
next
  assume l: "limit f = None"
  have "getAllContent (Content rows) (f\<lparr>category_filter := Some ''All''\<rparr>) =
      getAllContent (Content rows) (f\<lparr>category_filter := None\<rparr>)"
    by (intro getAllContent_cong) (simp_all add: conditions_of_def pagination_of_def unless_All_All cong: option.case_cong)
  with all_rows_without_limit [of "f\<lparr>category_filter := None\<rparr>" rows] l
  show "\<exists>rs. getAllContent (Content rows) (f\<lparr>category_filter := Some ''All''\<rparr>) = Inr rs \<and>
         mset rs = mset (filter (matches_filters (f\<lparr>category_filter := None\<rparr>)) rows)"
    by simp
  have "getAllContent (Content rows) (f\<lparr>source_filter := Some ''All''\<rparr>) =
      getAllContent (Content rows) (f\<lparr>source_filter := None\<rparr>)"
    by (intro getAllContent_cong) (simp_all add: conditions_of_def pagination_of_def unless_All_All cong: option.case_cong)
  with all_rows_without_limit [of "f\<lparr>source_filter := None\<rparr>" rows] l
  show "\<exists>rs. getAllContent (Content rows) (f\<lparr>source_filter := Some ''All''\<rparr>) = Inr rs \<and>
         mset rs = mset (filter (matches_filters (f\<lparr>source_filter := None\<rparr>)) rows)"
    by simp
next
  fix items i
  assume "trim (or_else (search_param p) []) = []"
    and "GET_data db (p\<lparr>contentType_param := Some ''All''\<rparr>) = Json_200 items"
    and "i \<in> set items"
  with without_search_filters_hold [of "p\<lparr>contentType_param := Some ''All''\<rparr>" db items i]
  show "Content_Type i = Some ''All''"
    by simp
next
  fix items i
  assume "trim (or_else (search_param p) []) = []"
    and "GET_data db (p\<lparr>difficultyLevel_param := Some ''All''\<rparr>) = Json_200 items"
    and "i \<in> set items"
  with without_search_filters_hold [of "p\<lparr>difficultyLevel_param := Some ''All''\<rparr>" db items i]
  show "Difficulty_Level i = Some ''All''"
    by simp
qed

theorem All_for_category_and_source_witness:
  "getAllContent (Content [row_1, row_2, row_3]) (no_filters\<lparr>category_filter := Some ''All''\<rparr>) =
     getAllContent (Content [row_1, row_2, row_3]) (no_filters\<lparr>category_filter := None\<rparr>) \<and>
   getAllContent (Content [row_1, row_2, row_3]) (no_filters\<lparr>category_filter := None\<rparr>) =
     Inr [row_2, row_1, row_3] \<and>
   searchContent (Content [row_1, row_2, row_3]) ''video'' (no_filters\<lparr>source_filter := Some ''All''\<rparr>) =
     searchContent (Content [row_1, row_2, row_3]) ''video'' (no_filters\<lparr>source_filter := None\<rparr>) \<and>
   searchContent (Content [row_1, row_2, row_3]) ''video'' (no_filters\<lparr>source_filter := None\<rparr>) =
     Inr [row_2, row_1] \<and>
   GET_data (Content [row_1, row_2, row_3]) (no_params\<lparr>category_param := Some ''All''\<rparr>) =
     GET_data (Content [row_1, row_2, row_3]) (no_params\<lparr>category_param := None\<rparr>) \<and>
   GET_data (Content [row_1, row_2, row_3]) (no_params\<lparr>contentType_param := Some ''All''\<rparr>) =
     Json_200 [transform row_3] \<and>
   Content_Type (transform row_3) = Some ''All'' \<and>
   GET_data (Content [row_1, row_2, row_3]) (no_params\<lparr>difficultyLevel_param := Some ''All''\<rparr>) =
     Json_200 [transform row_3] \<and>
   Difficulty_Level (transform row_3) = Some ''All''"
proof -
  have 1: "trim (or_else (search_param no_params) []) = []"
    by (simp add: no_params_def or_else_def trim_def)
  have 2: "GET_data (Content [row_1, row_2, row_3]) (no_params\<lparr>contentType_param := Some ''All''\<rparr>) =
             Json_200 [transform row_3]"
    by code_simp
  have 3: "GET_data (Content [row_1, row_2, row_3]) (no_params\<lparr>difficultyLevel_param := Some ''All''\<rparr>) =
             Json_200 [transform row_3]"
    by code_simp
  have 4: "getAllContent (Content [row_1, row_2, row_3]) (no_filters\<lparr>category_filter := None\<rparr>) =
             Inr [row_2, row_1, row_3]"
    by code_simp
  have 5: "searchContent (Content [row_1, row_2, row_3]) ''video'' (no_filters\<lparr>source_filter := None\<rparr>) =
             Inr [row_2, row_1]"
    by code_simp
  have 6: "limit no_filters = None"
    by (simp add: no_filters_def)
  from All_for_category_and_source
    [of "Content [row_1, row_2, row_3]" no_filters "''video''" "[row_1, row_2, row_3]" no_params]
    1 2 3 4 5 6
  show ?thesis by simp
qed

text \<open>
  Claim C3 as stated fails for content type and difficulty level: on a table of two
  videos, \<open>contentType=All\<close> and \<open>difficultyLevel=All\<close> return nothing, no filter
  returns both rows.
\<close>

theorem All_counterexample:
  "GET_data (Content [row_1, row_2]) (no_params\<lparr>contentType_param := Some ''All''\<rparr>) = Json_200 [] \<and>
   GET_data (Content [row_1, row_2]) (no_params\<lparr>contentType_param := None\<rparr>) =
     Json_200 [transform row_2, transform row_1] \<and>
   GET_data (Content [row_1, row_2]) (no_params\<lparr>difficultyLevel_param := Some ''All''\<rparr>) = Json_200 [] \<and>
   GET_data (Content [row_1, row_2]) (no_params\<lparr>difficultyLevel_param := None\<rparr>) =
     Json_200 [transform row_2, transform row_1]"
  by code_simp

section \<open>The search clause\<close>

text \<open>
  A leading \<open>%\<close> lets the rest of the pattern match at any suffix; a pattern without
  wild cards matches a prefix of the same length, letter by letter, ignoring ASCII case.
\<close>

lemma like_percent: "like (CHR ''%'' # ps) s = (\<exists>a b. s = a @ b \<and> like ps b)"
proof (induction s)
  case Nil
  then show ?case by simp
next
  case (Cons c cs)
  show ?case
    by (simp add: Cons.IH Cons_eq_append_conv) blast
qed

lemma like_literal:
  "CHR ''%'' \<notin> set q \<Longrightarrow> CHR ''_'' \<notin> set q \<Longrightarrow>
   like (q @ ps) s = (\<exists>a b. s = a @ b \<and> map to_lower a = map to_lower q \<and> like ps b)"
proof (induction q arbitrary: s)
  case Nil
  then show ?case by simp
next
  case (Cons x q)
  show ?case
  proof (cases s)
    case Nil
    with Cons.prems show ?thesis by auto
  next
    case (Cons c cs)
    have "like ((x # q) @ ps) (c # cs) = (to_lower x = to_lower c \<and> like (q @ ps) cs)"
      using Cons.prems by auto
    also have "\<dots> = (to_lower x = to_lower c \<and>
        (\<exists>a b. cs = a @ b \<and> map to_lower a = map to_lower q \<and> like ps b))"
      using Cons.IH Cons.prems by simp
    also have "\<dots> = (\<exists>a b. c # cs = a @ b \<and> map to_lower a = map to_lower (x # q) \<and> like ps b)"
      (is "?L = ?R")
    proof
      assume ?L
      then obtain a b where "to_lower x = to_lower c" "cs = a @ b"
        "map to_lower a = map to_lower q" "like ps b"
        by blast
      then have "c # cs = (c # a) @ b \<and> map to_lower (c # a) = map to_lower (x # q) \<and> like ps b"
        by simp
      then show ?R by blast
    next
      assume ?R
      then obtain a b where h: "c # cs = a @ b" "map to_lower a = map to_lower (x # q)" "like ps b"
        by blast
      from h(2) obtain a0 a' where "a = a0 # a'"
        by (cases a) auto
      with h show ?L by auto
    qed
    finally show ?thesis using Cons by simp
  qed
qed

lemma like_any: "like ''%'' s"
  by (induction s) auto

lemma like_search_pattern:
  assumes "CHR ''%'' \<notin> set q" "CHR ''_'' \<notin> set q"
  shows "like (''%'' @ q @ ''%'') s = sublist (map to_lower q) (map to_lower s)"
proof -
  have "like (''%'' @ q @ ''%'') s =
        (\<exists>a m e. s = a @ m @ e \<and> map to_lower m = map to_lower q)"
    using assms by (simp add: like_percent like_literal like_any) blast
  also have "\<dots> = (\<exists>ps ss. map to_lower s = ps @ map to_lower q @ ss)"
  proof
    assume "\<exists>a m e. s = a @ m @ e \<and> map to_lower m = map to_lower q"
    then obtain a m e where "s = a @ m @ e" "map to_lower m = map to_lower q"
      by blast
    then have "map to_lower s = map to_lower a @ map to_lower q @ map to_lower e"
      by simp
    then show "\<exists>ps ss. map to_lower s = ps @ map to_lower q @ ss"
      by blast
  next
    assume "\<exists>ps ss. map to_lower s = ps @ map to_lower q @ ss"
    then obtain ps ss where h: "map to_lower s = ps @ map to_lower q @ ss"
      by blast
    from h [unfolded map_eq_append_conv]
    obtain a t where s: "s = a @ t" and t: "map to_lower q @ ss = map to_lower t"
      by blast
    from t [unfolded append_eq_map_conv]
    obtain m e where "t = m @ e" "map to_lower m = map to_lower q"
      by metis
    with s show "\<exists>a m e. s = a @ m @ e \<and> map to_lower m = map to_lower q"
      by blast
  qed
  also have "\<dots> = sublist (map to_lower q) (map to_lower s)"
    by (simp add: sublist_def)
  finally show ?thesis .
qed

text \<open>A text without NUL is its own C string.\<close>

lemma c_string_nul_free: "CHR 0x00 \<notin> set s \<Longrightarrow> c_string s = s"
  by (auto simp: c_string_def)

lemma c_string_search_pattern:
  "CHR 0x00 \<notin> set q \<Longrightarrow> c_string (''%'' @ q @ ''%'') = ''%'' @ q @ ''%''"
  by (rule c_string_nul_free) simp

lemma occurs_in_ascii_like:
  assumes "CHR ''%'' \<notin> set q" "CHR ''_'' \<notin> set q" "CHR 0x00 \<notin> set q" "nul_free v"
  shows "(map_option (sql_like (''%'' @ q @ ''%'')) v = Some True) = occurs_in_ascii q v"
proof (cases v)
  case None
  then show ?thesis by (simp add: occurs_in_ascii_def)
next
  case (Some s)
  with assms(4) have "c_string s = s"
    by (simp add: nul_free_def c_string_nul_free)
  with Some show ?thesis
    using like_search_pattern [OF assms(1,2), of s] c_string_search_pattern [OF assms(3)]
    by (simp add: occurs_in_ascii_def sql_like_def del: append.simps)
qed

text \<open>
  Claim C7, as the code has it. For a search string of at most 24999 characters that
  contains neither \<open>%\<close> nor \<open>_\<close> nor NUL, and a record whose four fields contain no
  NUL, the search clause is true exactly when the string occurs, ignoring the case of
  the ASCII letters, as a substring of the record's category, source, content type or
  difficulty level.
\<close>

theorem search_without_wildcards:
  assumes "CHR ''%'' \<notin> set q" "CHR ''_'' \<notin> set q" "CHR 0x00 \<notin> set q"
    and "length q \<le> 24999"
    and "fields_nul_free r"
  shows "(eval (search_clause q) r = Some True) = search_predicate_ascii q r"
proof -
  note like = occurs_in_ascii_like [OF assms(1-3)]
  from assms(5) have
    "nul_free (Some (category r))" "nul_free (Some (source r))"
    "nul_free (content_type r)" "nul_free (difficulty_level r)"
    by (simp_all add: fields_nul_free_def)
  then have
    "(sql_like (''%'' @ q @ ''%'') (category r)) = occurs_in_ascii q (Some (category r))"
    "(sql_like (''%'' @ q @ ''%'') (source r)) = occurs_in_ascii q (Some (source r))"
    "(map_option (sql_like (''%'' @ q @ ''%'')) (content_type r) = Some True) =
       occurs_in_ascii q (content_type r)"
    "(map_option (sql_like (''%'' @ q @ ''%'')) (difficulty_level r) = Some True) =
       occurs_in_ascii q (difficulty_level r)"
    using like [of "Some (category r)"] like [of "Some (source r)"]
      like [of "content_type r"] like [of "difficulty_level r"]
    by (simp_all del: append.simps)
  then show ?thesis
    by (simp add: search_clause_def Let_def sql_or_True search_predicate_ascii_def
        del: append.simps)
qed

theorem search_without_wildcards_witness:
  "CHR ''%'' \<notin> set ''fashion'' \<and> CHR ''_'' \<notin> set ''fashion'' \<and> CHR 0x00 \<notin> set ''fashion'' \<and>
   length ''fashion'' \<le> 24999 \<and> fields_nul_free row_1 \<and> fields_nul_free row_2 \<and>
   eval (search_clause ''fashion'') row_1 = Some True \<and> search_predicate_ascii ''fashion'' row_1 \<and>
   eval (search_clause ''fashion'') row_2 \<noteq> Some True \<and> \<not> search_predicate_ascii ''fashion'' row_2"
proof -
  have a: "CHR ''%'' \<notin> set ''fashion''" and b: "CHR ''_'' \<notin> set ''fashion''"
    and c: "CHR 0x00 \<notin> set ''fashion''" and d: "length ''fashion'' \<le> 24999"
    by simp_all
  have e: "fields_nul_free row_1" and f: "fields_nul_free row_2"
    by code_simp+
  have 1: "search_predicate_ascii ''fashion'' row_1"
    and 2: "\<not> search_predicate_ascii ''fashion'' row_2"
    by code_simp+
  from search_without_wildcards [OF a b c d e] search_without_wildcards [OF a b c d f]
    a b c d e f 1 2
  show ?thesis by simp
qed

text \<open>
  Claim C7 as stated fails in four ways. The search string is pasted into the \<open>LIKE\<close>
  pattern unescaped: \<open>_\<close> matches a record with no underscore in any field, and
  \<open>s%n\<close> matches \<open>Sustainable Fashion\<close>. The pattern ends at its first NUL: the search
  string NUL matches a record with no NUL in any field. \<open>LIKE\<close> ignores the case of the
  ASCII letters only: the small letter \<open>0xE9\<close> is not found in a category that is its
  capital \<open>0xC9\<close>. And a field is read up to its first NUL: \<open>fashion\<close> is not found in
  the source NUL \<open>fashion\<close>.
\<close>

theorem search_wildcard_counterexample:
  "eval (search_clause ''_'') row_1 = Some True \<and> \<not> search_predicate ''_'' row_1 \<and>
   eval (search_clause ''s%n'') row_1 = Some True \<and> \<not> search_predicate ''s%n'' row_1 \<and>
   eval (search_clause [CHR 0x00]) row_1 = Some True \<and> \<not> search_predicate [CHR 0x00] row_1 \<and>
   eval (search_clause [CHR 0xE9]) (row_1\<lparr>category := [CHR 0xC9]\<rparr>) = Some False \<and>
   search_predicate [CHR 0xE9] (row_1\<lparr>category := [CHR 0xC9]\<rparr>) \<and>
   eval (search_clause ''fashion'') (row_2\<lparr>source := [CHR 0x00] @ ''fashion''\<rparr>) = Some False \<and>
   search_predicate ''fashion'' (row_2\<lparr>source := [CHR 0x00] @ ''fashion''\<rparr>)"
  by code_simp

section \<open>Statistics\<close>

lemma foldl_avg_step:
  "foldl avg_step (s, n) vs = (s + sum_list (non_null vs), n + length (non_null vs))"
  by (induction vs arbitrary: s n rule: non_null.induct) (simp_all add: add.assoc)

lemma sql_avg_mean:
  "sql_avg vs = (if non_null vs = [] then None else Some (mean (non_null vs)))"
  by (simp add: sql_avg_def foldl_avg_step mean_def)

text \<open>
  While the absolute values add up to less than \<open>2\<^sup>6\<^sup>3\<close>, no running sum leaves the
  64-bit range and \<open>SUM\<close> is the sum.
\<close>

lemma sum_list_abs_nonneg: "0 \<le> sum_list (map abs vs)" for vs :: "int list"
  by (induction vs) auto

lemma foldl_sum_step:
  "\<bar>s\<bar> + sum_list (map abs (non_null vs)) < 2 ^ 63 \<Longrightarrow>
   foldl sum_step (Inr (s, n)) vs = Inr (s + sum_list (non_null vs), n + length (non_null vs))"
proof (induction vs arbitrary: s n rule: non_null.induct)
  case 1
  then show ?case by simp
next
  case (2 vs)
  then show ?case by simp
next
  case (3 v vs)
  from "3.prems" sum_list_abs_nonneg [of "non_null vs"] have "int64 (s + v)"
    by (simp add: int64_def) linarith
  moreover from "3.prems" have "\<bar>s + v\<bar> + sum_list (map abs (non_null vs)) < 2 ^ 63"
    by simp
  ultimately show ?case
    using "3.IH" [of "s + v" "Suc n"] by (simp add: add.assoc)
qed

lemma sql_sum_total:
  "sum_list (map abs (non_null vs)) < 2 ^ 63 \<Longrightarrow>
   sql_sum vs = Inr (if non_null vs = [] then None else Some (sum_list (non_null vs)))"
  using foldl_sum_step [of 0 vs 0] by (simp add: sql_sum_def)

lemma abs_sum_list: "\<bar>sum_list vs\<bar> \<le> sum_list (map abs vs)" for vs :: "int list"
  by (induction vs) auto

lemma round_to_double_small: "\<bar>i\<bar> < 2 ^ 53 \<Longrightarrow> round_to_double i = i"
  by (simp add: round_to_double_def)

lemma sum_as_double:
  assumes "sum_list (map abs (non_null vs)) < 2 ^ 53"
  shows "(case sql_sum vs of Inl e \<Rightarrow> None | Inr t \<Rightarrow> Some (map_option round_to_double t)) =
     Some (if non_null vs = [] then None else Some (sum_list (non_null vs)))"
proof -
  have "(2::int) ^ 53 < 2 ^ 63"
    by simp
  with assms have "sum_list (map abs (non_null vs)) < 2 ^ 63"
    by (rule less_trans)
  moreover from assms abs_sum_list [of "non_null vs"]
  have "round_to_double (sum_list (non_null vs)) = sum_list (non_null vs)"
    by (intro round_to_double_small) simp
  ultimately show ?thesis
    by (simp add: sql_sum_total)
qed

lemma select_distinct_props:
  "sorted (select_distinct col rows) \<and> distinct (select_distinct col rows) \<and>
   set (select_distinct col rows) = col ` set rows"
  by (simp add: select_distinct_def)

lemma floor_half: "\<lfloor>1 / 2 :: rat\<rfloor> = 0"
  by (rule floor_unique) simp_all

lemma avg_rounded:
  "of_int (Math_round (times_100 (sql_avg vs))) / 100 =
     (if non_null vs = [] then 0 else round_2 (mean (non_null vs)))"
  by (simp add: sql_avg_mean times_100_def Math_round_def round_2_def floor_half)

lemma round_2_close: "\<bar>round_2 x - x\<bar> \<le> 1 / 100"
proof -
  have "of_int \<lfloor>x * 100 + 1 / 2\<rfloor> \<le> x * 100 + 1 / 2"
    by (rule of_int_floor_le)
  moreover have "x * 100 + 1 / 2 < of_int \<lfloor>x * 100 + 1 / 2\<rfloor> + 1"
    using floor_correct [of "x * 100 + 1 / 2"] by simp
  ultimately have "\<bar>of_int \<lfloor>x * 100 + 1 / 2\<rfloor> - x * 100\<bar> \<le> 1"
    by linarith
  then have "\<bar>of_int \<lfloor>x * 100 + 1 / 2\<rfloor> / 100 - x\<bar> \<le> 1 / 100"
    by (simp add: abs_le_iff field_simps)
  then show ?thesis
    by (simp add: round_2_def)
qed

lemma getContentStats_Content:
  "getContentStats (Content rows) =
     (case sql_sum (map upvotes rows) of
        Inl e \<Rightarrow> Inl Failed_to_fetch_content_statistics
      | Inr total_upvotes \<Rightarrow>
          (case sql_sum (map views rows) of
             Inl e \<Rightarrow> Inl Failed_to_fetch_content_statistics
           | Inr total_views \<Rightarrow>
               Inr \<lparr>totalContent = length rows,
                    avgTimeSpent =
                      (if non_null (map time_spent_minutes rows) = [] then 0
                       else round_2 (mean (non_null (map time_spent_minutes rows)))),
                    totalUpvotes = map_option round_to_double total_upvotes,
                    totalViews = map_option round_to_double total_views\<rparr>))"
  by (simp add: getContentStats_def getDatabase_def Let_def avg_rounded
      split: sum.splits)

lemma getContentStats_in_range:
  assumes "sum_list (map abs (non_null (map upvotes rows))) < 2 ^ 53"
    and "sum_list (map abs (non_null (map views rows))) < 2 ^ 53"
  shows "getContentStats (Content rows) =
     Inr \<lparr>totalContent = length rows,
          avgTimeSpent =
            (if non_null (map time_spent_minutes rows) = [] then 0
             else round_2 (mean (non_null (map time_spent_minutes rows)))),
          totalUpvotes =
            (if non_null (map upvotes rows) = [] then None
             else Some (sum_list (non_null (map upvotes rows)))),
          totalViews =
            (if non_null (map views rows) = [] then None
             else Some (sum_list (non_null (map views rows))))\<rparr>"
  using sum_as_double [OF assms(1)] sum_as_double [OF assms(2)]
  by (auto simp: getContentStats_Content split: sum.splits)

text \<open>
  Claim C8, as the code has it. Let every time that is not NULL lie between \<open>0\<close> and
  \<open>1000\<close>, the table hold at most a million rows, and the absolute values of the
  upvotes, and of the views, add up to less than \<open>2\<^sup>5\<^sup>3\<close>. Then the statistics route
  answers with status 200 and returns the number of rows; \<open>avgTimeSpent\<close>, which is \<open>0\<close>
  when no time is there, else at most a hundredth away from the mean of the times, and
  equal to the mean rounded to two decimals unless a hundred times the mean is near a
  tie of the rounding; the sums of the upvotes and of the views that are not NULL
  (\<open>null\<close> when there is none); and the categories and the sources, each sorted
  ascending without duplicates.
\<close>

theorem statistics_of_table:
  assumes "\<forall>t \<in> set (non_null (map time_spent_minutes rows)). 0 \<le> t \<and> t \<le> 1000"
    and "length rows \<le> 1000000"
    and "sum_list (map abs (non_null (map upvotes rows))) < 2 ^ 53"
    and "sum_list (map abs (non_null (map views rows))) < 2 ^ 53"
  shows "\<exists>a cs ss.
     GET_stats (Content rows) =
       Json_200
         \<lparr>stats =
            \<lparr>totalContent = length rows,
             avgTimeSpent = a,
             totalUpvotes =
               (if non_null (map upvotes rows) = [] then None
                else Some (sum_list (non_null (map upvotes rows)))),
             totalViews =
               (if non_null (map views rows) = [] then None
                else Some (sum_list (non_null (map views rows))))\<rparr>,
          categories = cs, sources = ss\<rparr> \<and>
     (non_null (map time_spent_minutes rows) = [] \<longrightarrow> a = 0) \<and>
     (non_null (map time_spent_minutes rows) \<noteq> [] \<longrightarrow>
        \<bar>a - mean (non_null (map time_spent_minutes rows))\<bar> \<le> 1 / 100) \<and>
     (non_null (map time_spent_minutes rows) \<noteq> [] \<and>
      \<not> near_tie (mean (non_null (map time_spent_minutes rows)) * 100) \<longrightarrow>
        a = round_2 (mean (non_null (map time_spent_minutes rows)))) \<and>
     sorted cs \<and> distinct cs \<and> set cs = category ` set rows \<and>
     sorted ss \<and> distinct ss \<and> set ss = source ` set rows"
proof -
  let ?times = "non_null (map time_spent_minutes rows)"
  let ?a = "if ?times = [] then 0 else round_2 (mean ?times)"
  have "GET_stats (Content rows) =
       Json_200
         \<lparr>stats =
            \<lparr>totalContent = length rows,
             avgTimeSpent = ?a,
             totalUpvotes =
               (if non_null (map upvotes rows) = [] then None
                else Some (sum_list (non_null (map upvotes rows)))),
             totalViews =
               (if non_null (map views rows) = [] then None
                else Some (sum_list (non_null (map views rows))))\<rparr>,
          categories = select_distinct category rows,
          sources = select_distinct source rows\<rparr>"
    by (simp add: GET_stats_def getContentStats_in_range [OF assms(3,4)] getCategories_def
        getSources_def getDatabase_def)
  moreover have "?times = [] \<longrightarrow> ?a = 0"
    by simp
  moreover have "?times \<noteq> [] \<longrightarrow> \<bar>?a - mean ?times\<bar> \<le> 1 / 100"
    using round_2_close [of "mean ?times"] by simp
  moreover have "?times \<noteq> [] \<and> \<not> near_tie (mean ?times * 100) \<longrightarrow> ?a = round_2 (mean ?times)"
    by simp
  moreover note select_distinct_props [of category rows] select_distinct_props [of source rows]
  ultimately show ?thesis
    by blast
qed

theorem statistics_of_table_witness:
  "list_all (\<lambda>t. 0 \<le> t \<and> t \<le> 1000) (non_null (map time_spent_minutes [row_1, row_2, row_1])) \<and>
   length [row_1, row_2, row_1] \<le> 1000000 \<and>
   sum_list (map abs (non_null (map upvotes [row_1, row_2, row_1]))) < 2 ^ 53 \<and>
   sum_list (map abs (non_null (map views [row_1, row_2, row_1]))) < 2 ^ 53 \<and>
   \<not> near_tie (mean (non_null (map time_spent_minutes [row_1, row_2, row_1])) * 100) \<and>
   GET_stats (Content [row_1, row_2, row_1]) =
     Json_200
       \<lparr>stats = \<lparr>totalContent = 3, avgTimeSpent = 33 / 100, totalUpvotes = Some 350,
                 totalViews = Some 4000\<rparr>,
        categories = [''Style Principles'', ''Sustainable Fashion''],
        sources = [''Instagram'', ''TikTok'']\<rparr>"
proof -
  have t: "non_null (map time_spent_minutes [row_1, row_2, row_1]) = [1 / 4, 1 / 2, 1 / 4]"
    and u: "non_null (map upvotes [row_1, row_2, row_1]) = [100, 150, 100]"
    and v: "non_null (map views [row_1, row_2, row_1]) = [1000, 2000, 1000]"
    by (simp_all add: row_1_def row_2_def)
  have h1: "\<forall>t \<in> set (non_null (map time_spent_minutes [row_1, row_2, row_1])). 0 \<le> t \<and> t \<le> 1000"
    unfolding t by simp
  have h2: "length [row_1, row_2, row_1] \<le> 1000000"
    by simp
  have h3: "sum_list (map abs (non_null (map upvotes [row_1, row_2, row_1]))) < 2 ^ 53"
    unfolding u by simp
  have h4: "sum_list (map abs (non_null (map views [row_1, row_2, row_1]))) < 2 ^ 53"
    unfolding v by simp
  have n: "\<not> near_tie (mean (non_null (map time_spent_minutes [row_1, row_2, row_1])) * 100)"
    unfolding t by code_simp
  have r: "round_2 (mean [1 / 4, 1 / 2, 1 / 4]) = 33 / 100"
    by code_simp
  from statistics_of_table [OF h1 h2 h3 h4] n
  obtain cs ss where g: "GET_stats (Content [row_1, row_2, row_1]) =
       Json_200
         \<lparr>stats = \<lparr>totalContent = 3, avgTimeSpent = 33 / 100, totalUpvotes = Some 350,
                   totalViews = Some 4000\<rparr>,
          categories = cs, sources = ss\<rparr>"
    unfolding t u v r by auto
  have "GET_stats (Content [row_1, row_2, row_1]) =
     Json_200
       \<lparr>stats = \<lparr>totalContent = 3, avgTimeSpent = 33 / 100, totalUpvotes = Some 350,
                 totalViews = Some 4000\<rparr>,
        categories = [''Style Principles'', ''Sustainable Fashion''],
        sources = [''Instagram'', ''TikTok'']\<rparr>"
    by code_simp
  with g h1 h2 h3 h4 n show ?thesis by (simp add: list_all_iff)
qed

text \<open>
  Claim C8 as stated fails. For times \<open>0.25\<close> and \<open>0.5\<close> the mean is \<open>0.375\<close> and
  \<open>avgTimeSpent\<close> is \<open>0.38\<close>. For upvotes \<open>2\<^sup>6\<^sup>2\<close> and \<open>2\<^sup>6\<^sup>2\<close> the sum leaves the
  64-bit range and the route answers with status 500. For views \<open>2\<^sup>5\<^sup>3\<close> and \<open>1\<close>
  the sum is returned as the double \<open>2\<^sup>5\<^sup>3\<close>.
\<close>

theorem mean_is_rounded_counterexample:
  "mean (non_null (map time_spent_minutes [row_1, row_2])) = 3 / 8 \<and>
   getContentStats (Content [row_1, row_2]) =
     Inr \<lparr>totalContent = 2, avgTimeSpent = 19 / 50, totalUpvotes = Some 250,
          totalViews = Some 3000\<rparr> \<and>
   GET_stats (Content [row_1\<lparr>upvotes := Some (2 ^ 62)\<rparr>, row_2\<lparr>upvotes := Some (2 ^ 62)\<rparr>]) =
     Json_500 ''Failed to load statistics'' \<and>
   sum_list (non_null (map views [row_1\<lparr>views := Some (2 ^ 53)\<rparr>, row_2\<lparr>views := Some 1\<rparr>])) =
     2 ^ 53 + 1 \<and>
   getContentStats (Content [row_1\<lparr>views := Some (2 ^ 53)\<rparr>, row_2\<lparr>views := Some 1\<rparr>]) =
     Inr \<lparr>totalContent = 2, avgTimeSpent = 19 / 50, totalUpvotes = Some 250,
          totalViews = Some (2 ^ 53)\<rparr>"
  by code_simp

text \<open>
  Claim C2, as the code has it. On the empty table nothing is thrown; the count and
  the mean are \<open>0\<close>, and the two sums are \<open>null\<close>: \<open>SUM\<close> over no rows is NULL.
\<close>

theorem empty_statistics:
  "getContentStats (Content []) =
     Inr \<lparr>totalContent = 0, avgTimeSpent = 0, totalUpvotes = None, totalViews = None\<rparr> \<and>
   GET_stats (Content []) =
     Json_200
       \<lparr>stats = \<lparr>totalContent = 0, avgTimeSpent = 0, totalUpvotes = None, totalViews = None\<rparr>,
        categories = [], sources = []\<rparr>"
  by (simp add: GET_stats_def getContentStats_Content getCategories_def getSources_def
      getDatabase_def select_distinct_def sql_sum_def)

text \<open>Claim C2 as stated fails: the sums on the empty table are not \<open>0\<close>.\<close>

theorem empty_statistics_counterexample:
  "\<not> (\<exists>s. getContentStats (Content []) = Inr s \<and> totalContent s = 0 \<and> avgTimeSpent s = 0 \<and>
          totalUpvotes s = Some 0 \<and> totalViews s = Some 0)"
  by (auto simp: getContentStats_Content sql_sum_def)

end
